theory Spec2Isabelle
  imports Complex_Main
begin

section \<open>Python and numpy operations used by the solver\<close>

text \<open>
  The program is Python over numpy arrays of floating-point numbers. Array cells are
  modelled by the type \<open>real\<close>: the arithmetic of the model is exact, and rounding,
  overflow, infinities and NaN of IEEE doubles are outside of it. One-dimensional arrays
  are lists, the two-dimensional field arrays are lists of rows. Every exception the
  code can raise is a value \<open>Inl e\<close> of the result type.
\<close>

datatype py_error = ZeroDivisionError | IndexError | ValueError

definition seq :: "py_error + 'a \<Rightarrow> ('a \<Rightarrow> py_error + 'b) \<Rightarrow> py_error + 'b" where
  "seq r f = (case r of Inl e \<Rightarrow> Inl e | Inr v \<Rightarrow> f v)"

text \<open>Python's \<open>a / b\<close> on floats raises when the divisor is zero.\<close>

definition py_div :: "real \<Rightarrow> real \<Rightarrow> py_error + real" where
  "py_div a b = (if b = 0 then Inl ZeroDivisionError else Inr (a / b))"

text \<open>Python 3's \<open>round\<close> on a float returns an integer, a tie going to the even neighbour.\<close>

definition py_round :: "real \<Rightarrow> int" where
  "py_round v =
     (let f = \<lfloor>v\<rfloor>; r = v - of_int f
      in if r < 1 / 2 then f else if 1 / 2 < r then f + 1 else if even f then f else f + 1)"

text \<open>\<open>range(a, b)\<close>.\<close>

definition py_range :: "int \<Rightarrow> int \<Rightarrow> int list" where
  "py_range a b = map (\<lambda>k. a + int k) [0..<nat (b - a)]"

text \<open>
  An index \<open>i\<close> into a sequence of length \<open>n\<close>: a negative index counts from the end,
  and an index outside of the sequence raises \<open>IndexError\<close>.
\<close>

definition py_index :: "nat \<Rightarrow> int \<Rightarrow> py_error + nat" where
  "py_index n i =
     (let j = (if i < 0 then i + int n else i)
      in if 0 \<le> j \<and> j < int n then Inr (nat j) else Inl IndexError)"

definition getitem :: "'a list \<Rightarrow> int \<Rightarrow> py_error + 'a" where
  "getitem xs i = seq (py_index (length xs) i) (\<lambda>j. Inr (xs ! j))"

definition setitem :: "'a list \<Rightarrow> int \<Rightarrow> 'a \<Rightarrow> py_error + 'a list" where
  "setitem xs i v = seq (py_index (length xs) i) (\<lambda>j. Inr (xs[j := v]))"

text \<open>\<open>a[key, j] = v\<close> on a two-dimensional array.\<close>

definition setitem2 :: "'a list list \<Rightarrow> int \<Rightarrow> int \<Rightarrow> 'a \<Rightarrow> py_error + 'a list list" where
  "setitem2 a key j v =
     seq (getitem a key) (\<lambda>row.
     seq (setitem row j v) (\<lambda>row'.
     setitem a key row'))"

text \<open>
  A slice bound is clipped to the sequence, never an error; \<open>None\<close> is an omitted bound.
  A slice whose upper bound is not above its lower bound is empty.
\<close>

definition slice_bound :: "nat \<Rightarrow> int \<Rightarrow> nat" where
  "slice_bound n i = (if i < 0 then nat (max 0 (i + int n)) else min n (nat i))"

definition slice_lo :: "nat \<Rightarrow> int option \<Rightarrow> nat" where
  "slice_lo n lo = (case lo of None \<Rightarrow> 0 | Some i \<Rightarrow> slice_bound n i)"

definition slice_hi :: "nat \<Rightarrow> int option \<Rightarrow> nat" where
  "slice_hi n hi = (case hi of None \<Rightarrow> n | Some i \<Rightarrow> slice_bound n i)"

definition getslice :: "'a list \<Rightarrow> int option \<Rightarrow> int option \<Rightarrow> 'a list" where
  "getslice xs lo hi =
     (let a = slice_lo (length xs) lo; b = slice_hi (length xs) hi
      in take (b - a) (drop a xs))"

text \<open>
  \<open>xs[lo:hi] = vs\<close> on an array: the value must have the length of the slice, or length
  one (it is then broadcast); anything else raises \<open>ValueError\<close>.
\<close>

definition setslice :: "'a list \<Rightarrow> int option \<Rightarrow> int option \<Rightarrow> 'a list \<Rightarrow> py_error + 'a list" where
  "setslice xs lo hi vs =
     (let a = slice_lo (length xs) lo; b = slice_hi (length xs) hi; len = b - a
      in if length vs = len then Inr (take a xs @ vs @ drop (a + len) xs)
         else if length vs = 1 then Inr (take a xs @ replicate len (hd vs) @ drop (a + len) xs)
         else Inl ValueError)"

text \<open>
  Elementwise arithmetic. numpy raises \<open>ValueError\<close> when the two shapes differ and
  neither is one; wherever the solver combines two arrays they have the same length
  (lemmas \<open>central2_operands\<close>, \<open>central4_operands\<close> and the shape invariant
  \<open>shape_ok\<close> below), so the binary operations are the pointwise ones.
\<close>

definition np_add :: "real list \<Rightarrow> real list \<Rightarrow> real list" where
  "np_add a b = map2 (+) a b"

definition np_sub :: "real list \<Rightarrow> real list \<Rightarrow> real list" where
  "np_sub a b = map2 (-) a b"

definition np_neg :: "real list \<Rightarrow> real list" where
  "np_neg a = map uminus a"

definition np_smul :: "real \<Rightarrow> real list \<Rightarrow> real list" where
  "np_smul c a = map ((*) c) a"

definition np_sdiv :: "real list \<Rightarrow> real \<Rightarrow> real list" where
  "np_sdiv a c = map (\<lambda>v. v / c) a"

definition np_square :: "real list \<Rightarrow> real list" where
  "np_square a = map (\<lambda>v. v ^ 2) a"

text \<open>
  \<open>np.empty\<close> and \<open>np.empty_like\<close> return arrays whose cells are not initialised. What
  such a buffer holds is a parameter of the model: \<open>u j\<close> is the content of cell \<open>j\<close> of
  a fresh one-dimensional buffer, \<open>u2 i j\<close> that of cell \<open>(i, j)\<close> of a two-dimensional
  one. A negative dimension raises \<open>ValueError\<close>.
\<close>

definition np_empty_like :: "(nat \<Rightarrow> real) \<Rightarrow> 'a list \<Rightarrow> real list" where
  "np_empty_like u psi = map u [0..<length psi]"

definition np_empty2 :: "(nat \<Rightarrow> nat \<Rightarrow> real) \<Rightarrow> int \<Rightarrow> int \<Rightarrow> py_error + real list list" where
  "np_empty2 u2 m n =
     (if m < 0 \<or> n < 0 then Inl ValueError
      else Inr (map (\<lambda>i. map (u2 i) [0..<nat n]) [0..<nat m]))"

text \<open>
  \<open>np.linspace(start, stop, num)\<close>: \<open>num\<close> evenly spaced samples with both ends
  included; a single sample is \<open>start\<close>, and a negative \<open>num\<close> raises \<open>ValueError\<close>.
\<close>

definition np_linspace :: "real \<Rightarrow> real \<Rightarrow> int \<Rightarrow> py_error + real list" where
  "np_linspace start stop num =
     (if num < 0 then Inl ValueError
      else Inr (map (\<lambda>k. if num = 1 then start
                           else start + of_nat k * ((stop - start) / of_int (num - 1)))
                    [0..<nat num]))"

section \<open>The class \<open>Wavefunction\<close>\<close>

text \<open>The attributes of \<open>self\<close>; \<open>self.real\<close> and \<open>self.imag\<close> have \<open>nt\<close> rows of \<open>nx\<close> cells.\<close>

record Wavefunction =
  self_dx2 :: real
  self_dt :: real
  self_mu :: real
  self_nx :: int
  self_nt :: int
  self_real :: "real list list"
  self_imag :: "real list list"
  self_shape :: "nat \<times> nat"
  self_x :: "real list"
  self_t :: "real list"
  self_boundaries :: "complex \<times> complex"

definition c_to_tup :: "complex \<Rightarrow> real \<times> real" where
  "c_to_tup x = (Re x, Im x)"

text \<open>
  \<open>_setbcs(key)\<close>: the four assignments in the order of the source, the left end first.
\<close>

definition setbcs :: "Wavefunction \<Rightarrow> int \<Rightarrow> py_error + Wavefunction" where
  "setbcs self key =
     (case c_to_tup (fst (self_boundaries self)) of (a, b) \<Rightarrow>
      seq (setitem2 (self_real self) key 0 a) (\<lambda>r1.
      seq (setitem2 (self_imag self) key 0 b) (\<lambda>i1.
      case c_to_tup (snd (self_boundaries self)) of (c, d) \<Rightarrow>
      seq (setitem2 r1 key (- 1) c) (\<lambda>r2.
      seq (setitem2 i1 key (- 1) d) (\<lambda>i2.
      Inr (self\<lparr>self_real := r2, self_imag := i2\<rparr>))))))"

text \<open>
  \<open>__init__\<close>. \<open>ur\<close> and \<open>ui\<close> are the contents of the two fresh field arrays. An
  assignment \<open>a[0] = v\<close> of a whole row takes a value of the row's length or of length
  one (broadcast) and raises \<open>ValueError\<close> otherwise.
  The square \<open>dx ** 2\<close>, the quotient \<open>dt/(2*dx**2)\<close> and the two quotients that are
  rounded are exact here. In doubles \<open>dx ** 2\<close> is zero for a step below about \<open>1e-162\<close>
  (line 31 then raises \<open>ZeroDivisionError\<close>) and raises \<open>OverflowError\<close> for a step above
  about \<open>1e154\<close>, and a quotient that is a tie over the reals need not be one in doubles.
  The case analysis of lemma \<open>init_outcome\<close> is therefore one of the model; the theorems on
  construction speak of the counts that the returned object carries.
\<close>

definition setrow :: "real list list \<Rightarrow> int \<Rightarrow> real list \<Rightarrow> py_error + real list list" where
  "setrow a key vs =
     seq (getitem a key) (\<lambda>row.
     if length vs = length row then setitem a key vs
     else if length vs = 1 then setitem a key (replicate (length row) (hd vs))
     else Inl ValueError)"

definition init ::
  "(nat \<Rightarrow> nat \<Rightarrow> real) \<Rightarrow> (nat \<Rightarrow> nat \<Rightarrow> real) \<Rightarrow> (real list \<Rightarrow> complex list) \<Rightarrow>
   real \<Rightarrow> real \<Rightarrow> real \<times> real \<Rightarrow> real \<times> real \<Rightarrow> complex \<times> complex \<Rightarrow>
   py_error + Wavefunction" where
  "init ur ui initial dx dt_arg xrange trange bnds =
     seq (py_div dt_arg (2 * dx ^ 2)) (\<lambda>mu.
     seq (py_div (snd xrange - fst xrange) dx) (\<lambda>qx.
     let nx = py_round qx in
     seq (py_div (snd trange - fst trange) dt_arg) (\<lambda>qt.
     let nt = py_round qt in
     seq (np_empty2 ur nt nx) (\<lambda>re.
     seq (np_empty2 ui nt nx) (\<lambda>im.
     seq (np_linspace (fst xrange) (snd xrange) nx) (\<lambda>x.
     seq (np_linspace (fst xrange) (snd xrange) nt) (\<lambda>t.
     let ini = initial x in
     seq (setrow re 0 (map Re ini)) (\<lambda>re0.
     seq (setrow im 0 (map Im ini)) (\<lambda>im0.
     setbcs \<lparr>self_dx2 = dx ^ 2, self_dt = dt_arg, self_mu = mu, self_nx = nx, self_nt = nt,
             self_real = re0, self_imag = im0, self_shape = (nat nt, nat nx),
             self_x = x, self_t = t, self_boundaries = bnds\<rparr> 0)))))))))"

text \<open>
  \<open>deriv(psi, order, dirichlet)\<close>. \<open>df\<close> starts as a fresh buffer and is assigned
  piece by piece, in the order of the source.
\<close>

definition central2 :: "real list \<Rightarrow> real list" where
  "central2 psi =
     np_add (np_sub (getslice psi (Some 2) None) (np_smul 2 (getslice psi (Some 1) (Some (- 1)))))
            (getslice psi (Some 0) (Some (- 2)))"

definition central4 :: "real list \<Rightarrow> real list" where
  "central4 psi =
     np_sdiv
       (np_sub
         (np_add
           (np_sub
             (np_add (np_neg (getslice psi None (Some (- 4))))
                     (np_smul 16 (getslice psi (Some 1) (Some (- 3)))))
             (np_smul 30 (getslice psi (Some 2) (Some (- 2)))))
           (np_smul 16 (getslice psi (Some 3) (Some (- 1)))))
         (getslice psi (Some 4) None))
       12"

definition deriv ::
  "Wavefunction \<Rightarrow> (nat \<Rightarrow> real) \<Rightarrow> real list \<Rightarrow> int \<Rightarrow> bool \<Rightarrow> py_error + real list" where
  "deriv self u psi order dirichlet =
     seq (if order = 2 then setslice (np_empty_like u psi) (Some 1) (Some (- 1)) (central2 psi)
          else if order = 4 then
            seq (setslice (np_empty_like u psi) (Some 2) (Some (- 2)) (central4 psi)) (\<lambda>df.
            seq (getitem psi 0) (\<lambda>p0.
            seq (getitem psi 1) (\<lambda>p1.
            seq (getitem psi 2) (\<lambda>p2.
            seq (setitem df 1 (p0 - 2 * p1 + p2)) (\<lambda>df.
            seq (getitem psi (- 1)) (\<lambda>q1.
            seq (getitem psi (- 2)) (\<lambda>q2.
            seq (getitem psi (- 3)) (\<lambda>q3.
            setitem df (- 2) (q1 - 2 * q2 + q3)))))))))
          else Inr (np_empty_like u psi)) (\<lambda>df.
     seq (if dirichlet then
            seq (setitem df 0 0) (\<lambda>df. setitem df (- 1) 0)
          else
            seq (getitem psi 0) (\<lambda>p0.
            seq (getitem psi 1) (\<lambda>p1.
            seq (getitem psi 2) (\<lambda>p2.
            seq (getitem psi 3) (\<lambda>p3.
            seq (setitem df 0 (- 1 * p0 + 4 * p1 - 5 * p2 + 2 * p3)) (\<lambda>df.
            seq (getitem psi (- 1)) (\<lambda>q1.
            seq (getitem psi (- 2)) (\<lambda>q2.
            seq (getitem psi (- 3)) (\<lambda>q3.
            seq (getitem psi (- 4)) (\<lambda>q4.
            setitem df (- 1) (- 1 * q1 + 4 * q2 - 5 * q3 + 2 * q4))))))))))) (\<lambda>df.
     Inr (np_sdiv df (self_dx2 self))))"

text \<open>
  The body of the loop of \<open>solve\<close>, lines 82 to 95: the eight derivative calls (all with
  the defaults \<open>order=4\<close>, \<open>dirichlet=True\<close>) and the two row assignments. Each row
  \<open>kreal[j]\<close>, \<open>kimag[j]\<close> of the scratch arrays is assigned as a whole before it is
  read, so the scratch arrays are the local values \<open>kreal0\<close> .. \<open>kimag3\<close>; the rows
  \<open>self.real[i]\<close> and \<open>self.imag[i]\<close> are not assigned before line 94 and are read once.
\<close>

definition solve_advance :: "Wavefunction \<Rightarrow> (nat \<Rightarrow> real) \<Rightarrow> int \<Rightarrow> py_error + Wavefunction" where
  "solve_advance self u i =
     seq (getitem (self_imag self) i) (\<lambda>im.
     seq (getitem (self_real self) i) (\<lambda>re.
     seq (deriv self u im 4 True) (\<lambda>d. let kreal0 = np_smul (- 0.5) d in
     seq (deriv self u re 4 True) (\<lambda>d. let kimag0 = np_smul 0.5 d in
     seq (deriv self u (np_add im (np_sdiv (np_smul (self_dt self) kreal0) 2)) 4 True)
       (\<lambda>d. let kreal1 = np_smul (- 0.5) d in
     seq (deriv self u (np_add re (np_sdiv (np_smul (self_dt self) kimag0) 2)) 4 True)
       (\<lambda>d. let kimag1 = np_smul 0.5 d in
     seq (deriv self u (np_add im (np_sdiv (np_smul (self_dt self) kreal1) 2)) 4 True)
       (\<lambda>d. let kreal2 = np_smul (- 0.5) d in
     seq (deriv self u (np_add re (np_sdiv (np_smul (self_dt self) kimag1) 2)) 4 True)
       (\<lambda>d. let kimag2 = np_smul 0.5 d in
     seq (deriv self u (np_add im (np_smul (self_dt self) kreal2)) 4 True)
       (\<lambda>d. let kreal3 = np_smul (- 0.5) d in
     seq (deriv self u (np_add re (np_smul (self_dt self) kimag2)) 4 True)
       (\<lambda>d. let kimag3 = np_smul 0.5 d in
     seq (setrow (self_real self) (i + 1)
            (np_add re (np_smul (self_dt self)
               (np_add (np_add (np_add (np_smul (1 / 6) kreal0) (np_smul (1 / 3) kreal1))
                               (np_smul (1 / 3) kreal2))
                       (np_smul (1 / 6) kreal3))))) (\<lambda>real'.
     seq (setrow (self_imag self) (i + 1)
            (np_add im (np_smul (self_dt self)
               (np_add (np_add (np_add (np_smul (1 / 6) kimag0) (np_smul (1 / 3) kimag1))
                               (np_smul (1 / 3) kimag2))
                       (np_smul (1 / 6) kimag3))))) (\<lambda>imag'.
     Inr (self\<lparr>self_real := real', self_imag := imag'\<rparr>)))))))))))))"

text \<open>One iteration: lines 82 to 95, then \<open>self._setbcs(i)\<close> of line 96.\<close>

definition solve_body :: "Wavefunction \<Rightarrow> (nat \<Rightarrow> real) \<Rightarrow> int \<Rightarrow> py_error + Wavefunction" where
  "solve_body self u i = seq (solve_advance self u i) (\<lambda>self'. setbcs self' i)"

fun solve_loop :: "Wavefunction \<Rightarrow> (nat \<Rightarrow> real) \<Rightarrow> int list \<Rightarrow> py_error + Wavefunction" where
  "solve_loop self u [] = Inr self"
| "solve_loop self u (i # rest) = seq (solve_body self u i) (\<lambda>self'. solve_loop self' u rest)"

text \<open>
  \<open>solve\<close>: \<open>np.empty([4, self.nx])\<close> raises \<open>ValueError\<close> when \<open>nx\<close> is negative; the rows
  of the two scratch arrays are the local values of \<open>solve_advance\<close>. The loop runs over
  \<open>range(0, self.nt - 1)\<close>.
\<close>

definition solve :: "Wavefunction \<Rightarrow> (nat \<Rightarrow> real) \<Rightarrow> py_error + Wavefunction" where
  "solve self u =
     (if self_nx self < 0 then Inl ValueError
      else solve_loop self u (py_range 0 (self_nt self - 1)))"

text \<open>
  \<open>prob(i)\<close>. The method has no assignment; the model returns the object as it is after
  the call together with the value.
\<close>

definition prob :: "Wavefunction \<Rightarrow> int \<Rightarrow> py_error + Wavefunction \<times> real list" where
  "prob self i =
     seq (getitem (self_real self) i) (\<lambda>re.
     seq (getitem (self_imag self) i) (\<lambda>im.
     Inr (self, np_add (np_square re) (np_square im))))"

text \<open>The shape of the field arrays, as \<open>__init__\<close> allocates them.\<close>

definition shape_ok :: "Wavefunction \<Rightarrow> bool" where
  "shape_ok self \<longleftrightarrow>
     length (self_real self) = nat (self_nt self) \<and>
     length (self_imag self) = nat (self_nt self) \<and>
     list_all (\<lambda>row. length row = nat (self_nx self)) (self_real self) \<and>
     list_all (\<lambda>row. length row = nat (self_nx self)) (self_imag self)"

text \<open>
  The value that \<open>deriv\<close> with \<open>order=4\<close> and \<open>dirichlet=True\<close> leaves in cell \<open>j\<close> of
  \<open>df\<close> before the division by \<open>dx2\<close>, in closed form (lemma \<open>deriv4_dirichlet\<close>).
\<close>

definition stencil4 :: "real list \<Rightarrow> nat \<Rightarrow> real" where
  "stencil4 psi j =
     (if j = 0 \<or> j = length psi - 1 then 0
      else if j = 1 \<or> j = length psi - 2 then psi ! (j - 1) - 2 * psi ! j + psi ! (j + 1)
      else (- (psi ! (j - 2)) + 16 * psi ! (j - 1) - 30 * psi ! j + 16 * psi ! (j + 1) - psi ! (j + 2)) / 12)"

text \<open>
  An object for the examples: what \<open>__init__\<close> returns for \<open>dx = 1/4\<close>, \<open>dt = 1/10\<close>,
  \<open>xrange = (0, 1)\<close>, \<open>trange = (0, 3/10)\<close>, \<open>boundaries = (1, 0)\<close> and the initial
  function \<open>ex_initial\<close>, with fresh buffers that hold zeros (lemma \<open>init_example\<close>).
\<close>

definition ex_initial :: "real list \<Rightarrow> complex list" where
  "ex_initial xs = map (\<lambda>v. Complex v (2 * v)) xs"

definition ex_self :: Wavefunction where
  "ex_self = \<lparr>self_dx2 = 1 / 16, self_dt = 1 / 10, self_mu = 4 / 5, self_nx = 4, self_nt = 3,
     self_real = [[1, 1 / 3, 2 / 3, 0], [0, 0, 0, 0], [0, 0, 0, 0]],
     self_imag = [[0, 2 / 3, 4 / 3, 0], [0, 0, 0, 0], [0, 0, 0, 0]],
     self_shape = (3, 4), self_x = [0, 1 / 3, 2 / 3, 1], self_t = [0, 1 / 2, 1],
     self_boundaries = (Complex 1 0, Complex 0 0)\<rparr>"

text \<open>
  The array that \<open>deriv\<close> returns for \<open>order=4\<close>, \<open>dirichlet=True\<close>, in closed form
  (lemma \<open>deriv_deriv4\<close>).
\<close>

definition deriv4 :: "Wavefunction \<Rightarrow> real list \<Rightarrow> real list" where
  "deriv4 self psi = map (\<lambda>j. stencil4 psi j / self_dx2 self) [0..<length psi]"

text \<open>
  The row that line 94 or 95 assigns, in closed form (lemma \<open>solve_advance_closed\<close>):
  \<open>out\<close> is the row that is advanced, \<open>psi\<close> the row that the four stages differentiate
  and \<open>c\<close> the factor \<open>-0.5\<close> or \<open>0.5\<close> of the stages.
\<close>

definition rk4_row :: "Wavefunction \<Rightarrow> real \<Rightarrow> real list \<Rightarrow> real list \<Rightarrow> real list" where
  "rk4_row self c out psi =
     (let k0 = np_smul c (deriv4 self psi);
          k1 = np_smul c (deriv4 self (np_add psi (np_sdiv (np_smul (self_dt self) k0) 2)));
          k2 = np_smul c (deriv4 self (np_add psi (np_sdiv (np_smul (self_dt self) k1) 2)));
          k3 = np_smul c (deriv4 self (np_add psi (np_smul (self_dt self) k2)))
      in np_add out (np_smul (self_dt self)
           (np_add (np_add (np_add (np_smul (1 / 6) k0) (np_smul (1 / 3) k1)) (np_smul (1 / 3) k2))
                   (np_smul (1 / 6) k3))))"

text \<open>
  Row \<open>k\<close> of the field carries the boundary values at its two ends.
\<close>

definition bcs_hold :: "Wavefunction \<Rightarrow> nat \<Rightarrow> bool" where
  "bcs_hold self k \<longleftrightarrow>
     self_real self ! k ! 0 = Re (fst (self_boundaries self)) \<and>
     self_imag self ! k ! 0 = Im (fst (self_boundaries self)) \<and>
     self_real self ! k ! (nat (self_nx self) - 1) = Re (snd (self_boundaries self)) \<and>
     self_imag self ! k ! (nat (self_nx self) - 1) = Im (snd (self_boundaries self))"

text \<open>
  What \<open>__init__\<close> returns when it returns (lemma \<open>init_outcome\<close>): \<open>init_row\<close> is the
  first row as the row assignment stores it, \<open>init_result\<close> the object.
\<close>

definition init_row :: "nat \<Rightarrow> real list \<Rightarrow> real list" where
  "init_row n vs = (if length vs = n then vs else replicate n (hd vs))"

definition init_result ::
  "(nat \<Rightarrow> nat \<Rightarrow> real) \<Rightarrow> (nat \<Rightarrow> nat \<Rightarrow> real) \<Rightarrow> (real list \<Rightarrow> complex list) \<Rightarrow>
   real \<Rightarrow> real \<Rightarrow> real \<times> real \<Rightarrow> real \<times> real \<Rightarrow> complex \<times> complex \<Rightarrow> Wavefunction" where
  "init_result ur ui initial dx dt_arg xrange trange bnds =
     (let nx = py_round ((snd xrange - fst xrange) / dx);
          nt = py_round ((snd trange - fst trange) / dt_arg);
          x = map (\<lambda>k. if nx = 1 then fst xrange
                         else fst xrange + of_nat k * ((snd xrange - fst xrange) / of_int (nx - 1)))
                  [0..<nat nx];
          t = map (\<lambda>k. if nt = 1 then fst xrange
                         else fst xrange + of_nat k * ((snd xrange - fst xrange) / of_int (nt - 1)))
                  [0..<nat nt]
      in \<lparr>self_dx2 = dx ^ 2, self_dt = dt_arg, self_mu = dt_arg / (2 * dx ^ 2),
          self_nx = nx, self_nt = nt,
          self_real = (map (\<lambda>i. map (ur i) [0..<nat nx]) [0..<nat nt])
             [0 := (init_row (nat nx) (map Re (initial x)))
                     [0 := Re (fst bnds), nat nx - 1 := Re (snd bnds)]],
          self_imag = (map (\<lambda>i. map (ui i) [0..<nat nx]) [0..<nat nt])
             [0 := (init_row (nat nx) (map Im (initial x)))
                     [0 := Im (fst bnds), nat nx - 1 := Im (snd bnds)]],
          self_shape = (nat nt, nat nx), self_x = x, self_t = t, self_boundaries = bnds\<rparr>)"

text \<open>
  Further objects for the examples: fresh buffers that hold zeros, and \<open>ex_point\<close>, what
  \<open>__init__\<close> returns for \<open>dx = 1\<close>, \<open>dt = 1\<close>, \<open>xrange = trange = (0, 1)\<close> and
  \<open>boundaries = (1, 0)\<close>: a grid of a single point (lemma \<open>init_point\<close>).
\<close>

definition ex_fill :: "nat \<Rightarrow> real" where
  "ex_fill j = 0"

definition ex_fill2 :: "nat \<Rightarrow> nat \<Rightarrow> real" where
  "ex_fill2 i j = 0"

definition ex_point :: Wavefunction where
  "ex_point = \<lparr>self_dx2 = 1, self_dt = 1, self_mu = 1 / 2, self_nx = 1, self_nt = 1,
     self_real = [[0]], self_imag = [[0]], self_shape = (1, 1), self_x = [0], self_t = [0],
     self_boundaries = (1, 0)\<rparr>"

text \<open>
  A state whose first row does not carry the boundary values at its ends (\<open>__init__\<close>
  returns no such state), to tell the rows of an iteration apart.
\<close>

definition ex_frame :: Wavefunction where
  "ex_frame = \<lparr>self_dx2 = 1, self_dt = 1, self_mu = 1 / 2, self_nx = 4, self_nt = 3,
     self_real = [[2, 1, 3, 5], [0, 0, 0, 0], [9, 9, 9, 9]],
     self_imag = [[4, 1, 0, 6], [0, 0, 0, 0], [8, 8, 8, 8]],
     self_shape = (3, 4), self_x = [0, 1 / 3, 2 / 3, 1], self_t = [0, 1 / 2, 1],
     self_boundaries = (Complex 1 2, Complex 3 4)\<rparr>"

text \<open>
  The advance step as the specification writes it (section 4.3): the stage vectors with the
  increments \<open>dt/2 * k\<close> and \<open>dt * k\<close>, and the new rows as
  \<open>row + dt * (k0 + 2 k1 + 2 k2 + k3) / 6\<close>, with \<open>D\<close> the operator \<open>deriv\<close> at order 4 in
  Dirichlet mode. It is compared with \<open>solve_advance\<close>, which follows the source.
\<close>

definition spec_advance :: "Wavefunction \<Rightarrow> (nat \<Rightarrow> real) \<Rightarrow> int \<Rightarrow> py_error + Wavefunction" where
  "spec_advance self u i =
     seq (getitem (self_imag self) i) (\<lambda>im.
     seq (getitem (self_real self) i) (\<lambda>re.
     seq (deriv self u im 4 True) (\<lambda>d. let k_real0 = np_smul (- 0.5) d in
     seq (deriv self u re 4 True) (\<lambda>d. let k_imag0 = np_smul 0.5 d in
     seq (deriv self u (np_add im (np_smul (self_dt self / 2) k_real0)) 4 True)
       (\<lambda>d. let k_real1 = np_smul (- 0.5) d in
     seq (deriv self u (np_add re (np_smul (self_dt self / 2) k_imag0)) 4 True)
       (\<lambda>d. let k_imag1 = np_smul 0.5 d in
     seq (deriv self u (np_add im (np_smul (self_dt self / 2) k_real1)) 4 True)
       (\<lambda>d. let k_real2 = np_smul (- 0.5) d in
     seq (deriv self u (np_add re (np_smul (self_dt self / 2) k_imag1)) 4 True)
       (\<lambda>d. let k_imag2 = np_smul 0.5 d in
     seq (deriv self u (np_add im (np_smul (self_dt self) k_real2)) 4 True)
       (\<lambda>d. let k_real3 = np_smul (- 0.5) d in
     seq (deriv self u (np_add re (np_smul (self_dt self) k_imag2)) 4 True)
       (\<lambda>d. let k_imag3 = np_smul 0.5 d in
     seq (setrow (self_real self) (i + 1)
            (np_add re (np_sdiv (np_smul (self_dt self)
               (np_add (np_add (np_add k_real0 (np_smul 2 k_real1)) (np_smul 2 k_real2)) k_real3))
               6))) (\<lambda>real'.
     seq (setrow (self_imag self) (i + 1)
            (np_add im (np_sdiv (np_smul (self_dt self)
               (np_add (np_add (np_add k_imag0 (np_smul 2 k_imag1)) (np_smul 2 k_imag2)) k_imag3))
               6))) (\<lambda>imag'.
     Inr (self\<lparr>self_real := real', self_imag := imag'\<rparr>)))))))))))))"

text \<open>
  A store of arrays, for the effect of \<open>deriv\<close> on its argument: an array is a cell of the
  store and a variable holds the index of its cell, so that two variables can name one
  array. Allocation appends a cell; an assignment \<open>a[i] = v\<close> or \<open>a[lo:hi] = vs\<close> replaces
  the content of the cell of \<open>a\<close>.
\<close>

type_synonym heap = "real list list"

definition h_setitem :: "heap \<Rightarrow> nat \<Rightarrow> int \<Rightarrow> real \<Rightarrow> py_error + heap" where
  "h_setitem h a i v = seq (setitem (h ! a) i v) (\<lambda>xs. Inr (h[a := xs]))"

definition h_setslice :: "heap \<Rightarrow> nat \<Rightarrow> int option \<Rightarrow> int option \<Rightarrow> real list \<Rightarrow> py_error + heap" where
  "h_setslice h a lo hi vs = seq (setslice (h ! a) lo hi vs) (\<lambda>xs. Inr (h[a := xs]))"

text \<open>
  \<open>deriv\<close> on the store, statement by statement: \<open>np.empty_like\<close> allocates \<open>df\<close>, every
  read of \<open>psi\<close> takes the content of its cell at that moment, every assignment goes to
  the cell of \<open>df\<close>, and \<open>df / self.dx2\<close> allocates the array that is returned. The result
  is the final store and the cell of the returned array.
\<close>

definition deriv_heap ::
  "Wavefunction \<Rightarrow> (nat \<Rightarrow> real) \<Rightarrow> heap \<Rightarrow> nat \<Rightarrow> int \<Rightarrow> bool \<Rightarrow> py_error + heap \<times> nat" where
  "deriv_heap self u h psi order dirichlet =
     (let df = length h; h0 = h @ [np_empty_like u (h ! psi)] in
      seq (if order = 2 then h_setslice h0 df (Some 1) (Some (- 1)) (central2 (h0 ! psi))
           else if order = 4 then
             seq (h_setslice h0 df (Some 2) (Some (- 2)) (central4 (h0 ! psi))) (\<lambda>h1.
             seq (getitem (h1 ! psi) 0) (\<lambda>p0.
             seq (getitem (h1 ! psi) 1) (\<lambda>p1.
             seq (getitem (h1 ! psi) 2) (\<lambda>p2.
             seq (h_setitem h1 df 1 (p0 - 2 * p1 + p2)) (\<lambda>h2.
             seq (getitem (h2 ! psi) (- 1)) (\<lambda>q1.
             seq (getitem (h2 ! psi) (- 2)) (\<lambda>q2.
             seq (getitem (h2 ! psi) (- 3)) (\<lambda>q3.
             h_setitem h2 df (- 2) (q1 - 2 * q2 + q3)))))))))
           else Inr h0) (\<lambda>h3.
      seq (if dirichlet then
             seq (h_setitem h3 df 0 0) (\<lambda>h4. h_setitem h4 df (- 1) 0)
           else
             seq (getitem (h3 ! psi) 0) (\<lambda>p0.
             seq (getitem (h3 ! psi) 1) (\<lambda>p1.
             seq (getitem (h3 ! psi) 2) (\<lambda>p2.
             seq (getitem (h3 ! psi) 3) (\<lambda>p3.
             seq (h_setitem h3 df 0 (- 1 * p0 + 4 * p1 - 5 * p2 + 2 * p3)) (\<lambda>h4.
             seq (getitem (h4 ! psi) (- 1)) (\<lambda>q1.
             seq (getitem (h4 ! psi) (- 2)) (\<lambda>q2.
             seq (getitem (h4 ! psi) (- 3)) (\<lambda>q3.
             seq (getitem (h4 ! psi) (- 4)) (\<lambda>q4.
             h_setitem h4 df (- 1) (- 1 * q1 + 4 * q2 - 5 * q3 + 2 * q4))))))))))) (\<lambda>h5.
      Inr (h5 @ [np_sdiv (h5 ! df) (self_dx2 self)], length h5))))"

text \<open>
  A store with two arrays, for the examples.
\<close>

definition ex_heap :: heap where
  "ex_heap = [[1, 4, 9, 16, 25], [2, 3]]"

section \<open>Indexing, slices and the sequencing of results\<close>

lemma seq_Inr [simp]: "seq (Inr v) f = f v"
  by (simp add: seq_def)

lemma seq_Inl [simp]: "seq (Inl e) f = Inl e"
  by (simp add: seq_def)

lemma seq_eq_Inr: "seq r f = Inr y \<longleftrightarrow> (\<exists>v. r = Inr v \<and> f v = Inr y)"
  by (cases r) simp_all

lemma py_index_nat: "k < n \<Longrightarrow> py_index n (int k) = Inr k"
  by (simp add: py_index_def)

lemma py_index_neg: "0 < k \<Longrightarrow> k \<le> n \<Longrightarrow> py_index n (- int k) = Inr (n - k)"
  by (simp add: py_index_def Let_def nat_diff_distrib')

lemma py_index_bound: "py_index n i = Inr j \<Longrightarrow> j < n"
  by (auto simp: py_index_def Let_def split: if_splits)

lemma getitem_nat: "k < length xs \<Longrightarrow> getitem xs (int k) = Inr (xs ! k)"
  by (simp add: getitem_def py_index_nat)

lemma getitem_neg: "0 < k \<Longrightarrow> k \<le> length xs \<Longrightarrow> getitem xs (- int k) = Inr (xs ! (length xs - k))"
  by (simp add: getitem_def py_index_neg)

lemma setitem_nat: "k < length xs \<Longrightarrow> setitem xs (int k) v = Inr (xs[k := v])"
  by (simp add: setitem_def py_index_nat)

lemma setitem_neg: "0 < k \<Longrightarrow> k \<le> length xs \<Longrightarrow> setitem xs (- int k) v = Inr (xs[length xs - k := v])"
  by (simp add: setitem_def py_index_neg)

lemma length_getslice:
  "length (getslice xs lo hi) = min (slice_hi (length xs) hi - slice_lo (length xs) lo) (length xs - slice_lo (length xs) lo)"
  by (simp add: getslice_def Let_def)

lemma nth_getslice:
  "k < slice_hi (length xs) hi - slice_lo (length xs) lo \<Longrightarrow> slice_lo (length xs) lo + k < length xs \<Longrightarrow>
   getslice xs lo hi ! k = xs ! (slice_lo (length xs) lo + k)"
  by (simp add: getslice_def Let_def)

lemma slice_lo_simps [simp]:
  "slice_lo n None = 0"
  "slice_lo n (Some 0) = 0"
  "slice_lo n (Some 1) = min n 1"
  "slice_lo n (Some 2) = min n 2"
  "slice_lo n (Some 3) = min n 3"
  "slice_lo n (Some 4) = min n 4"
  by (simp_all add: slice_lo_def slice_bound_def)

lemma slice_hi_simps [simp]:
  "slice_hi n None = n"
  "slice_hi n (Some (- 1)) = n - 1"
  "slice_hi n (Some (- 2)) = n - 2"
  "slice_hi n (Some (- 3)) = n - 3"
  "slice_hi n (Some (- 4)) = n - 4"
  by (auto simp: slice_hi_def slice_bound_def max_def)

lemma central4_operands:
  "length (getslice psi None (Some (- 4))) = length psi - 4"
  "length (getslice psi (Some 1) (Some (- 3))) = length psi - 4"
  "length (getslice psi (Some 2) (Some (- 2))) = length psi - 4"
  "length (getslice psi (Some 3) (Some (- 1))) = length psi - 4"
  "length (getslice psi (Some 4) None) = length psi - 4"
  by (auto simp: length_getslice)

lemma central2_operands:
  "length (getslice psi (Some 2) None) = length psi - 2"
  "length (getslice psi (Some 1) (Some (- 1))) = length psi - 2"
  "length (getslice psi (Some 0) (Some (- 2))) = length psi - 2"
  by (auto simp: length_getslice)

lemma length_central4 [simp]: "length (central4 psi) = length psi - 4"
  by (simp add: central4_def np_add_def np_sub_def np_neg_def np_smul_def np_sdiv_def central4_operands)

lemma length_central2 [simp]: "length (central2 psi) = length psi - 2"
  by (simp add: central2_def np_add_def np_sub_def np_neg_def np_smul_def np_sdiv_def central2_operands)

lemma nth_central4:
  "k + 4 < length psi \<Longrightarrow>
   central4 psi ! k = (- (psi ! k) + 16 * psi ! (k + 1) - 30 * psi ! (k + 2) + 16 * psi ! (k + 3) - psi ! (k + 4)) / 12"
  by (simp add: central4_def np_add_def np_sub_def np_neg_def np_smul_def np_sdiv_def central4_operands nth_getslice add.commute)

lemma nth_central2:
  "k + 2 < length psi \<Longrightarrow>
   central2 psi ! k = psi ! (k + 2) - 2 * psi ! (k + 1) + psi ! k"
  by (simp add: central2_def np_add_def np_sub_def np_neg_def np_smul_def np_sdiv_def central2_operands nth_getslice add.commute)


lemma py_index_simps:
  "0 < n \<Longrightarrow> py_index n 0 = Inr 0"
  "1 < n \<Longrightarrow> py_index n 1 = Inr 1"
  "2 < n \<Longrightarrow> py_index n 2 = Inr 2"
  "3 < n \<Longrightarrow> py_index n 3 = Inr 3"
  "1 \<le> n \<Longrightarrow> py_index n (- 1) = Inr (n - 1)"
  "2 \<le> n \<Longrightarrow> py_index n (- 2) = Inr (n - 2)"
  "3 \<le> n \<Longrightarrow> py_index n (- 3) = Inr (n - 3)"
  "4 \<le> n \<Longrightarrow> py_index n (- 4) = Inr (n - 4)"
  using py_index_nat[of 0 n] py_index_nat[of 1 n] py_index_nat[of 2 n] py_index_nat[of 3 n]
    py_index_neg[of 1 n] py_index_neg[of 2 n] py_index_neg[of 3 n] py_index_neg[of 4 n]
  by simp_all

lemma getitem_simps:
  "0 < length xs \<Longrightarrow> getitem xs 0 = Inr (xs ! 0)"
  "1 < length xs \<Longrightarrow> getitem xs 1 = Inr (xs ! 1)"
  "2 < length xs \<Longrightarrow> getitem xs 2 = Inr (xs ! 2)"
  "3 < length xs \<Longrightarrow> getitem xs 3 = Inr (xs ! 3)"
  "1 \<le> length xs \<Longrightarrow> getitem xs (- 1) = Inr (xs ! (length xs - 1))"
  "2 \<le> length xs \<Longrightarrow> getitem xs (- 2) = Inr (xs ! (length xs - 2))"
  "3 \<le> length xs \<Longrightarrow> getitem xs (- 3) = Inr (xs ! (length xs - 3))"
  "4 \<le> length xs \<Longrightarrow> getitem xs (- 4) = Inr (xs ! (length xs - 4))"
  by (simp_all add: getitem_def py_index_simps del: One_nat_def)

lemma setitem_simps:
  "0 < length xs \<Longrightarrow> setitem xs 0 v = Inr (xs[0 := v])"
  "1 < length xs \<Longrightarrow> setitem xs 1 v = Inr (xs[1 := v])"
  "1 \<le> length xs \<Longrightarrow> setitem xs (- 1) v = Inr (xs[length xs - 1 := v])"
  "2 \<le> length xs \<Longrightarrow> setitem xs (- 2) v = Inr (xs[length xs - 2 := v])"
  by (simp_all add: setitem_def py_index_simps del: One_nat_def)

section \<open>The derivative operator\<close>

lemma deriv4_short: "length psi < 3 \<Longrightarrow> deriv self u psi 4 d = Inl IndexError"
  by (auto simp: deriv_def setslice_def Let_def getitem_def py_index_def np_empty_like_def)

lemma deriv4_dirichlet:
  assumes n: "3 \<le> length psi"
  shows "deriv self u psi 4 True = Inr (map (\<lambda>j. stencil4 psi j / self_dx2 self) [0..<length psi])"
proof -
  let ?n = "length psi"
  let ?df0 = "np_empty_like u psi"
  let ?a = "psi ! 0 - 2 * psi ! 1 + psi ! 2"
  let ?b = "psi ! (?n - 1) - 2 * psi ! (?n - 2) + psi ! (?n - 3)"
  define df1 where "df1 = take 2 ?df0 @ central4 psi @ drop (2 + (?n - 4)) ?df0"
  define df2 where "df2 = df1[1 := ?a]"
  define df3 where "df3 = df2[?n - 2 := ?b]"
  define df4 where "df4 = df3[0 := 0]"
  define df5 where "df5 = df4[?n - 1 := 0]"
  have l0: "length ?df0 = ?n" by (simp add: np_empty_like_def)
  have s1: "setslice ?df0 (Some 2) (Some (- 2)) (central4 psi) = Inr df1"
    using n l0 by (auto simp: setslice_def Let_def df1_def)
  have l1: "length df1 = ?n" using n l0 by (auto simp: df1_def)
  have l: "length df2 = ?n" "length df3 = ?n" "length df4 = ?n" "length df5 = ?n"
    by (simp_all add: df2_def df3_def df4_def df5_def l1)
  have g: "getitem psi 0 = Inr (psi ! 0)" "getitem psi 1 = Inr (psi ! 1)" "getitem psi 2 = Inr (psi ! 2)"
    using n by (simp_all add: getitem_simps del: One_nat_def length_greater_0_conv)
  have h: "getitem psi (- 1) = Inr (psi ! (?n - 1))" "getitem psi (- 2) = Inr (psi ! (?n - 2))"
     "getitem psi (- 3) = Inr (psi ! (?n - 3))"
    using n by (simp_all add: getitem_simps del: One_nat_def length_greater_0_conv)
  have st: "setitem df1 1 ?a = Inr df2" "setitem df2 (- 2) ?b = Inr df3"
     "setitem df3 0 0 = Inr df4" "setitem df4 (- 1) 0 = Inr df5"
    using n l l1 by (simp_all add: setitem_simps df2_def df3_def df4_def df5_def
        del: One_nat_def length_greater_0_conv)
  have d: "deriv self u psi 4 True = Inr (np_sdiv df5 (self_dx2 self))"
    unfolding deriv_def by (simp add: s1 g h st del: One_nat_def)
  have e: "df5 = map (stencil4 psi) [0..<?n]"
  proof (rule nth_equalityI)
    show "length df5 = length (map (stencil4 psi) [0..<?n])" using l by simp
  next
    fix j assume "j < length df5"
    then have j: "j < ?n" using l by simp
    consider "j = 0" | "j = ?n - 1" | "j = ?n - 2" | "j = 1" "j \<noteq> ?n - 2" | "2 \<le> j" "j + 3 \<le> ?n"
      using j n by linarith
    then show "df5 ! j = map (stencil4 psi) [0..<?n] ! j"
    proof cases
      case 1 then show ?thesis using n l l1 j by (simp add: stencil4_def df5_def df4_def)
    next
      case 2 then show ?thesis using n l l1 j by (simp add: stencil4_def df5_def)
    next
      case 3
      have "?n - 2 - 1 = ?n - 3" "?n - 2 + 1 = ?n - 1" using n by simp_all
      then show ?thesis using 3 n l l1 j by (simp add: stencil4_def df5_def df4_def df3_def)
    next
      case 4
      have "Suc (Suc 0) = 2" "?n - 1 \<noteq> 1" using n by simp_all
      then show ?thesis using 4 n l l1 j
        by (simp add: stencil4_def df5_def df4_def df3_def df2_def del: One_nat_def)
    next
      case 5
      have a: "df5 ! j = df1 ! j" using 5 n l l1 j by (simp add: df5_def df4_def df3_def df2_def)
      have "j - 2 < ?n - 4" using 5 by linarith
      then have "df1 ! j = central4 psi ! (j - 2)"
        using 5 n l0 by (simp add: nth_append df1_def)
      also have "\<dots> = (- (psi ! (j - 2)) + 16 * psi ! (j - 2 + 1) - 30 * psi ! (j - 2 + 2) + 16 * psi ! (j - 2 + 3) - psi ! (j - 2 + 4)) / 12"
        using 5 by (intro nth_central4) simp
      also have "\<dots> = stencil4 psi j"
      proof -
        have i: "j - 2 + 1 = j - 1" "j - 2 + 2 = j" "j - 2 + 3 = j + 1" "j - 2 + 4 = j + 2"
          using 5 by simp_all
        have "j \<noteq> 0" "j \<noteq> ?n - 1" "j \<noteq> 1" "j \<noteq> ?n - 2" using 5 by linarith+
        then show ?thesis unfolding i by (simp add: stencil4_def del: One_nat_def)
      qed
      finally show ?thesis using a j by simp
    qed
  qed
  show ?thesis by (simp add: d e np_sdiv_def)
qed

text \<open>
  C5: with \<open>order=4\<close> and \<open>dirichlet=True\<close>, on an input of at least three samples (a
  shorter one raises \<open>IndexError\<close>, lemma \<open>deriv4_short\<close>) and with a step \<open>dx2\<close> other
  than zero, \<open>deriv\<close> returns an array of the length of its input that is 0 at the
  indices 0 and \<open>nx-1\<close>, the three-point value over \<open>dx2\<close> at the indices 1 and \<open>nx-2\<close>,
  and the five-point value over 12 over \<open>dx2\<close> at every index from 2 to \<open>nx-3\<close>.
\<close>

theorem deriv_order4_dirichlet_values:
  assumes "3 \<le> length psi" and "self_dx2 self \<noteq> 0"
  shows "\<exists>df. deriv self u psi 4 True = Inr df \<and> length df = length psi \<and>
     df ! 0 = 0 \<and> df ! (length psi - 1) = 0 \<and>
     df ! 1 = (psi ! 0 - 2 * psi ! 1 + psi ! 2) / self_dx2 self \<and>
     df ! (length psi - 2) =
       (psi ! (length psi - 3) - 2 * psi ! (length psi - 2) + psi ! (length psi - 1)) / self_dx2 self \<and>
     (\<forall>j. 2 \<le> j \<and> j + 3 \<le> length psi \<longrightarrow>
        df ! j = ((- (psi ! (j - 2)) + 16 * psi ! (j - 1) - 30 * psi ! j + 16 * psi ! (j + 1)
                  - psi ! (j + 2)) / 12) / self_dx2 self)"
proof -
  let ?n = "length psi"
  let ?df = "map (\<lambda>j. stencil4 psi j / self_dx2 self) [0..<?n]"
  have d: "deriv self u psi 4 True = Inr ?df" using assms(1) by (rule deriv4_dirichlet)
  have nth: "\<And>j. j < ?n \<Longrightarrow> ?df ! j = stencil4 psi j / self_dx2 self" by simp
  have p: "0 < ?n" "?n - 1 < ?n" "1 < ?n" "?n - 1 \<noteq> 1" using assms(1) by linarith+
  have c0: "?df ! 0 = 0" unfolding nth[OF p(1)] by (simp add: stencil4_def)
  have c1: "?df ! (?n - 1) = 0" unfolding nth[OF p(2)] by (simp add: stencil4_def)
  have c2: "?df ! 1 = (psi ! 0 - 2 * psi ! 1 + psi ! 2) / self_dx2 self"
    unfolding nth[OF p(3)] using p(4) by (simp add: stencil4_def numeral_2_eq_2)
  have i: "?n - 2 - 1 = ?n - 3" "?n - 2 + 1 = ?n - 1" "?n - 2 \<noteq> 0" "?n - 2 \<noteq> ?n - 1" "?n - 2 < ?n"
    using assms(1) by simp_all
  have c3: "?df ! (?n - 2) = (psi ! (?n - 3) - 2 * psi ! (?n - 2) + psi ! (?n - 1)) / self_dx2 self"
    unfolding nth[OF i(5)] stencil4_def using i(1-4) by (simp del: One_nat_def)
  have c4: "?df ! j = ((- (psi ! (j - 2)) + 16 * psi ! (j - 1) - 30 * psi ! j + 16 * psi ! (j + 1)
                  - psi ! (j + 2)) / 12) / self_dx2 self" if "2 \<le> j \<and> j + 3 \<le> ?n" for j
  proof -
    have "j \<noteq> 0" "j \<noteq> ?n - 1" "j \<noteq> 1" "j \<noteq> ?n - 2" "j < ?n" using that by linarith+
    then show ?thesis unfolding nth[OF \<open>j < ?n\<close>] stencil4_def by (simp del: One_nat_def)
  qed
  show ?thesis using d c0 c1 c2 c3 c4 by (intro exI[of _ ?df]) simp
qed

theorem deriv_order4_dirichlet_values_witness:
  "3 \<le> length [1, 4, 9, 16, 25, 36, 49 :: real] \<and> self_dx2 ex_self \<noteq> 0 \<and>
   (\<exists>df. deriv ex_self (\<lambda>j. 7) [1, 4, 9, 16, 25, 36, 49] 4 True = Inr df \<and> length df = 7 \<and>
      df ! 0 = 0 \<and> df ! 6 = 0 \<and> df ! 1 = 32 \<and> df ! 5 = 32 \<and> df ! 3 = 32)"
proof -
  have h1: "3 \<le> length [1, 4, 9, 16, 25, 36, 49 :: real]" by simp
  have h2: "self_dx2 ex_self \<noteq> 0" by (simp add: ex_self_def)
  show ?thesis
    using deriv_order4_dirichlet_values[OF h1 h2, of "\<lambda>j. 7"] h1 h2
    by (auto simp: ex_self_def eval_nat_numeral dest!: spec[of _ "3::nat"])
qed

section \<open>One Runge-Kutta step\<close>

lemma length_np [simp]:
  "length (np_add a b) = min (length a) (length b)"
  "length (np_sub a b) = min (length a) (length b)"
  "length (np_neg a) = length a"
  "length (np_smul c a) = length a"
  "length (np_sdiv a c) = length a"
  "length (np_square a) = length a"
  by (simp_all add: np_add_def np_sub_def np_neg_def np_smul_def np_sdiv_def np_square_def)

lemma nth_np:
  "j < length a \<Longrightarrow> j < length b \<Longrightarrow> np_add a b ! j = a ! j + b ! j"
  "j < length a \<Longrightarrow> j < length b \<Longrightarrow> np_sub a b ! j = a ! j - b ! j"
  "j < length a \<Longrightarrow> np_neg a ! j = - (a ! j)"
  "j < length a \<Longrightarrow> np_smul c a ! j = c * a ! j"
  "j < length a \<Longrightarrow> np_sdiv a c ! j = a ! j / c"
  "j < length a \<Longrightarrow> np_square a ! j = (a ! j) ^ 2"
  by (simp_all add: np_add_def np_sub_def np_neg_def np_smul_def np_sdiv_def np_square_def)

lemma length_deriv4 [simp]: "length (deriv4 self psi) = length psi"
  by (simp add: deriv4_def)

lemma deriv4_ends:
  "0 < length psi \<Longrightarrow> deriv4 self psi ! 0 = 0"
  "0 < length psi \<Longrightarrow> deriv4 self psi ! (length psi - 1) = 0"
  by (simp_all add: deriv4_def stencil4_def)

lemma deriv_deriv4: "3 \<le> length psi \<Longrightarrow> deriv self u psi 4 True = Inr (deriv4 self psi)"
  by (simp add: deriv4_dirichlet deriv4_def)

lemma deriv4_Inr:
  assumes "deriv self u psi 4 True = Inr d"
  shows "3 \<le> length psi \<and> d = deriv4 self psi"
proof (cases "length psi < 3")
  case True
  then show ?thesis using assms deriv4_short[of psi self u True] by simp
next
  case False
  then show ?thesis using assms deriv_deriv4[of psi self u] by simp
qed

lemma length_rk4_row:
  "length out = n \<Longrightarrow> length psi = n \<Longrightarrow> length (rk4_row self c out psi) = n"
  by (simp add: rk4_row_def Let_def)

lemma rk4_row_ends:
  assumes "length out = n" "length psi = n" "0 < n"
  shows "rk4_row self c out psi ! 0 = out ! 0"
    and "rk4_row self c out psi ! (n - 1) = out ! (n - 1)"
proof -
  have e: "\<And>p. length p = n \<Longrightarrow> deriv4 self p ! 0 = 0"
    "\<And>p. length p = n \<Longrightarrow> deriv4 self p ! (n - Suc 0) = 0"
    using deriv4_ends[of _ self] assms(3) by auto
  have l: "\<And>p. length p = n \<Longrightarrow> 0 < length p \<and> n - 1 < length p" using assms(3) by simp
  show "rk4_row self c out psi ! 0 = out ! 0"
    using assms by (simp add: rk4_row_def Let_def nth_np e)
  show "rk4_row self c out psi ! (n - 1) = out ! (n - 1)"
    using assms by (simp add: rk4_row_def Let_def nth_np e)
qed

lemma setitem_int: "setitem xs (int k) v = (if k < length xs then Inr (xs[k := v]) else Inl IndexError)"
  by (simp add: setitem_def py_index_def)

lemma getitem_int: "getitem xs (int k) = (if k < length xs then Inr (xs ! k) else Inl IndexError)"
  by (simp add: getitem_def py_index_def)

lemma setrow_int:
  "k < length a \<Longrightarrow> length vs = length (a ! k) \<Longrightarrow> setrow a (int k) vs = Inr (a[k := vs])"
  by (simp add: setrow_def getitem_int setitem_int)

lemma shape_ok_rows:
  assumes "shape_ok self" "k < nat (self_nt self)"
  shows "length (self_real self ! k) = nat (self_nx self)" "length (self_imag self ! k) = nat (self_nx self)"
    "k < length (self_real self)" "k < length (self_imag self)"
  using assms by (simp_all add: shape_ok_def list_all_length)

lemma solve_advance_closed:
  assumes s: "shape_ok self" and i: "Suc i < nat (self_nt self)" and n: "3 \<le> nat (self_nx self)"
  shows "solve_advance self u (int i) =
     Inr (self\<lparr>self_real := (self_real self)[Suc i := rk4_row self (- 0.5) (self_real self ! i) (self_imag self ! i)],
              self_imag := (self_imag self)[Suc i := rk4_row self 0.5 (self_imag self ! i) (self_real self ! i)]\<rparr>)"
proof -
  let ?re = "self_real self ! i" and ?im = "self_imag self ! i"
  have i': "i < nat (self_nt self)" using i by simp
  note r = shape_ok_rows[OF s i'] and r1 = shape_ok_rows[OF s i]
  have g: "getitem (self_imag self) (int i) = Inr ?im" "getitem (self_real self) (int i) = Inr ?re"
    using r by (simp_all add: getitem_int)
  have d: "\<And>p. length p = nat (self_nx self) \<Longrightarrow> deriv self u p 4 True = Inr (deriv4 self p)"
    using n by (simp add: deriv_deriv4)
  have sr: "\<And>vs. length vs = nat (self_nx self) \<Longrightarrow>
      setrow (self_real self) (int i + 1) vs = Inr ((self_real self)[Suc i := vs])"
    using setrow_int[of "Suc i" "self_real self"] r1 by (simp add: add.commute)
  have si: "\<And>vs. length vs = nat (self_nx self) \<Longrightarrow>
      setrow (self_imag self) (int i + 1) vs = Inr ((self_imag self)[Suc i := vs])"
    using setrow_int[of "Suc i" "self_imag self"] r1 by (simp add: add.commute)
  show ?thesis
    unfolding solve_advance_def
    by (simp add: g d sr si r Let_def rk4_row_def)
qed

section \<open>Boundary enforcement and one iteration of the loop\<close>

lemma setitem2_first:
  "k < length a \<Longrightarrow> 0 < length (a ! k) \<Longrightarrow> setitem2 a (int k) 0 v = Inr (a[k := (a ! k)[0 := v]])"
  by (simp add: setitem2_def getitem_int setitem_int setitem_simps del: length_greater_0_conv)

lemma setitem2_last:
  "k < length a \<Longrightarrow> 0 < length (a ! k) \<Longrightarrow>
   setitem2 a (int k) (- 1) v = Inr (a[k := (a ! k)[length (a ! k) - 1 := v]])"
  by (simp add: setitem2_def getitem_int setitem_int setitem_simps del: length_greater_0_conv One_nat_def)

lemma setbcs_closed:
  assumes s: "shape_ok self" and k: "k < nat (self_nt self)" and n: "1 \<le> nat (self_nx self)"
  shows "setbcs self (int k) =
     Inr (self\<lparr>self_real := (self_real self)[k := (self_real self ! k)
                  [0 := Re (fst (self_boundaries self)),
                   nat (self_nx self) - 1 := Re (snd (self_boundaries self))]],
              self_imag := (self_imag self)[k := (self_imag self ! k)
                  [0 := Im (fst (self_boundaries self)),
                   nat (self_nx self) - 1 := Im (snd (self_boundaries self))]]\<rparr>)"
proof -
  note r = shape_ok_rows[OF s k]
  have p: "0 < length (self_real self ! k)" "0 < length (self_imag self ! k)" using r n by simp_all
  have a: "\<And>v. setitem2 (self_real self) (int k) 0 v = Inr ((self_real self)[k := (self_real self ! k)[0 := v]])"
    using setitem2_first[OF r(3) p(1)] .
  have b: "\<And>v. setitem2 (self_imag self) (int k) 0 v = Inr ((self_imag self)[k := (self_imag self ! k)[0 := v]])"
    using setitem2_first[OF r(4) p(2)] .
  have c: "\<And>v w. setitem2 ((self_real self)[k := (self_real self ! k)[0 := w]]) (int k) (- 1) v =
      Inr ((self_real self)[k := (self_real self ! k)[0 := w, nat (self_nx self) - 1 := v]])"
    using setitem2_last[of k "(self_real self)[k := (self_real self ! k)[0 := w]]" for w] r p
    by simp
  have d: "\<And>v w. setitem2 ((self_imag self)[k := (self_imag self ! k)[0 := w]]) (int k) (- 1) v =
      Inr ((self_imag self)[k := (self_imag self ! k)[0 := w, nat (self_nx self) - 1 := v]])"
    using setitem2_last[of k "(self_imag self)[k := (self_imag self ! k)[0 := w]]" for w] r p
    by simp
  show ?thesis unfolding setbcs_def c_to_tup_def by (simp add: a b c d)
qed

lemma shape_ok_update:
  assumes "shape_ok self" "length ra = nat (self_nx self)" "length rb = nat (self_nx self)"
  shows "shape_ok (self\<lparr>self_real := (self_real self)[k := ra], self_imag := (self_imag self)[j := rb]\<rparr>)"
  using assms by (auto simp: shape_ok_def list_all_iff dest!: subsetD[OF set_update_subset_insert])

lemma solve_advance_shape:
  assumes s: "shape_ok self" and i: "Suc i < nat (self_nt self)" and n: "3 \<le> nat (self_nx self)"
    and a: "solve_advance self u (int i) = Inr w1"
  shows "shape_ok w1" "self_nx w1 = self_nx self" "self_nt w1 = self_nt self"
    "self_boundaries w1 = self_boundaries self"
    "self_real w1 = (self_real self)[Suc i := rk4_row self (- 0.5) (self_real self ! i) (self_imag self ! i)]"
    "self_imag w1 = (self_imag self)[Suc i := rk4_row self 0.5 (self_imag self ! i) (self_real self ! i)]"
proof -
  have i': "i < nat (self_nt self)" using i by simp
  note r = shape_ok_rows[OF s i']
  have w: "w1 = self\<lparr>self_real := (self_real self)[Suc i := rk4_row self (- 0.5) (self_real self ! i) (self_imag self ! i)],
              self_imag := (self_imag self)[Suc i := rk4_row self 0.5 (self_imag self ! i) (self_real self ! i)]\<rparr>"
    using a solve_advance_closed[OF s i n, of u] by simp
  have l: "length (rk4_row self (- 0.5) (self_real self ! i) (self_imag self ! i)) = nat (self_nx self)"
    "length (rk4_row self 0.5 (self_imag self ! i) (self_real self ! i)) = nat (self_nx self)"
    using r by (simp_all add: length_rk4_row)
  show "shape_ok w1" unfolding w using s l by (rule shape_ok_update)
  show "self_nx w1 = self_nx self" "self_nt w1 = self_nt self"
    "self_boundaries w1 = self_boundaries self"
    "self_real w1 = (self_real self)[Suc i := rk4_row self (- 0.5) (self_real self ! i) (self_imag self ! i)]"
    "self_imag w1 = (self_imag self)[Suc i := rk4_row self 0.5 (self_imag self ! i) (self_real self ! i)]"
    by (simp_all add: w)
qed

lemma solve_body_closed:
  assumes s: "shape_ok self" and i: "Suc i < nat (self_nt self)" and n: "3 \<le> nat (self_nx self)"
  shows "\<exists>w'. solve_body self u (int i) = Inr w' \<and> shape_ok w' \<and>
     self_nx w' = self_nx self \<and> self_nt w' = self_nt self \<and>
     self_boundaries w' = self_boundaries self \<and>
     self_real w' = (self_real self)
       [Suc i := rk4_row self (- 0.5) (self_real self ! i) (self_imag self ! i),
        i := (self_real self ! i)[0 := Re (fst (self_boundaries self)),
                                  nat (self_nx self) - 1 := Re (snd (self_boundaries self))]] \<and>
     self_imag w' = (self_imag self)
       [Suc i := rk4_row self 0.5 (self_imag self ! i) (self_real self ! i),
        i := (self_imag self ! i)[0 := Im (fst (self_boundaries self)),
                                  nat (self_nx self) - 1 := Im (snd (self_boundaries self))]]"
proof -
  obtain w1 where a: "solve_advance self u (int i) = Inr w1"
    using solve_advance_closed[OF s i n, of u] by simp
  note p = solve_advance_shape[OF s i n a]
  have i1: "i < nat (self_nt w1)" using i p(3) by simp
  have n1: "1 \<le> nat (self_nx w1)" using n p(2) by simp
  note c = setbcs_closed[OF p(1) i1 n1]
  note r = shape_ok_rows[OF s i1[unfolded p(3)]]
  have l: "length (self_real w1 ! i) = nat (self_nx self)" "length (self_imag w1 ! i) = nat (self_nx self)"
    using shape_ok_rows[OF p(1) i1] p(2) by simp_all
  let ?w = "w1\<lparr>self_real := (self_real w1)[i := (self_real w1 ! i)
                  [0 := Re (fst (self_boundaries w1)),
                   nat (self_nx w1) - 1 := Re (snd (self_boundaries w1))]],
              self_imag := (self_imag w1)[i := (self_imag w1 ! i)
                  [0 := Im (fst (self_boundaries w1)),
                   nat (self_nx w1) - 1 := Im (snd (self_boundaries w1))]]\<rparr>"
  have b: "solve_body self u (int i) = Inr ?w" unfolding solve_body_def by (simp add: a c)
  have sh: "shape_ok ?w" using p(1) by (rule shape_ok_update) (simp_all add: l p(2))
  show ?thesis
    by (intro exI[of _ ?w] conjI b sh) (simp_all add: p)
qed

section \<open>The loop of solve\<close>

lemma solve_loop_invariant:
  assumes "shape_ok self" and "3 \<le> nat (self_nx self)" and "b < nat (self_nt self)" and "a \<le> b"
    and "\<forall>k\<le>a. bcs_hold self k"
  shows "\<exists>w'. solve_loop self u (map int [a..<b]) = Inr w' \<and> shape_ok w' \<and>
     self_nx w' = self_nx self \<and> self_nt w' = self_nt self \<and>
     self_boundaries w' = self_boundaries self \<and> (\<forall>k\<le>b. bcs_hold w' k)"
  using assms
proof (induction "b - a" arbitrary: a self)
  case 0
  then have "a = b" by simp
  then show ?case using 0 by simp
next
  case (Suc m)
  then have ab: "a < b" by simp
  have i: "Suc a < nat (self_nt self)" using ab Suc.prems(3) by simp
  obtain w1 where b1: "solve_body self u (int a) = Inr w1" and s1: "shape_ok w1"
    and nx1: "self_nx w1 = self_nx self" and nt1: "self_nt w1 = self_nt self"
    and bd1: "self_boundaries w1 = self_boundaries self"
    and re1: "self_real w1 = (self_real self)
       [Suc a := rk4_row self (- 0.5) (self_real self ! a) (self_imag self ! a),
        a := (self_real self ! a)[0 := Re (fst (self_boundaries self)),
                                  nat (self_nx self) - 1 := Re (snd (self_boundaries self))]]"
    and im1: "self_imag w1 = (self_imag self)
       [Suc a := rk4_row self 0.5 (self_imag self ! a) (self_real self ! a),
        a := (self_imag self ! a)[0 := Im (fst (self_boundaries self)),
                                  nat (self_nx self) - 1 := Im (snd (self_boundaries self))]]"
    using solve_body_closed[OF Suc.prems(1) i Suc.prems(2), of u] by blast
  have a': "a < nat (self_nt self)" using i by simp
  note r = shape_ok_rows[OF Suc.prems(1) a'] and r' = shape_ok_rows[OF Suc.prems(1) i]
  have n0: "0 < nat (self_nx self)" "nat (self_nx self) - 1 < nat (self_nx self)"
    "nat (self_nx self) - 1 \<noteq> 0"
    using Suc.prems(2) by simp_all
  have ha: "bcs_hold self a" using Suc.prems(5) by simp
  have inv: "\<forall>k\<le>Suc a. bcs_hold w1 k"
  proof (intro allI impI)
    fix k assume k: "k \<le> Suc a"
    consider "k < a" | "k = a" | "k = Suc a" using k by linarith
    then show "bcs_hold w1 k"
    proof cases
      case 1
      then have "bcs_hold self k" using Suc.prems(5) by simp
      then show ?thesis using 1 by (simp add: bcs_hold_def re1 im1 nx1 bd1)
    next
      case 2
      show ?thesis unfolding 2 using r n0
        by (simp add: bcs_hold_def re1 im1 nx1 bd1 del: One_nat_def)
    next
      case 3
      have e: "rk4_row self (- 0.5) (self_real self ! a) (self_imag self ! a) ! 0 = self_real self ! a ! 0"
        "rk4_row self (- 0.5) (self_real self ! a) (self_imag self ! a) ! (nat (self_nx self) - 1)
           = self_real self ! a ! (nat (self_nx self) - 1)"
        "rk4_row self 0.5 (self_imag self ! a) (self_real self ! a) ! 0 = self_imag self ! a ! 0"
        "rk4_row self 0.5 (self_imag self ! a) (self_real self ! a) ! (nat (self_nx self) - 1)
           = self_imag self ! a ! (nat (self_nx self) - 1)"
        using rk4_row_ends[OF r(1) r(2) n0(1)] rk4_row_ends[OF r(2) r(1) n0(1)] by simp_all
      show ?thesis unfolding 3 using r' ha e
        by (simp add: bcs_hold_def re1 im1 nx1 bd1 del: One_nat_def)
    qed
  qed
  have m: "m = b - Suc a" using Suc.hyps(2) by simp
  have p: "3 \<le> nat (self_nx w1)" "b < nat (self_nt w1)" "Suc a \<le> b"
    using Suc.prems(2,3) ab nx1 nt1 by simp_all
  from Suc.hyps(1)[OF m s1 p inv]
  obtain w' where "solve_loop w1 u (map int [Suc a..<b]) = Inr w'" "shape_ok w'"
     "self_nx w' = self_nx w1" "self_nt w' = self_nt w1"
     "self_boundaries w' = self_boundaries w1" "\<forall>k\<le>b. bcs_hold w' k" by blast
  then show ?case using b1 ab nx1 nt1 bd1 by (simp add: upt_conv_Cons)
qed

lemma py_range_0: "py_range 0 n = map int [0..<nat n]"
  by (simp add: py_range_def)

lemma solve_completes:
  assumes "shape_ok self" and "3 \<le> self_nx self" and "1 \<le> self_nt self" and "bcs_hold self 0"
  shows "\<exists>w'. solve self u = Inr w' \<and> shape_ok w' \<and>
     self_nx w' = self_nx self \<and> self_nt w' = self_nt self \<and>
     self_boundaries w' = self_boundaries self \<and> (\<forall>k<nat (self_nt self). bcs_hold w' k)"
proof -
  have b: "nat (self_nt self - 1) < nat (self_nt self)" using assms(3) by simp
  have n: "3 \<le> nat (self_nx self)" using assms(2) by simp
  have z: "\<forall>k\<le>0. bcs_hold self k" using assms(4) by simp
  from solve_loop_invariant[OF assms(1) n b _ z, of u]
  obtain w' where w: "solve_loop self u (map int [0..<nat (self_nt self - 1)]) = Inr w'" "shape_ok w'"
     "self_nx w' = self_nx self" "self_nt w' = self_nt self"
     "self_boundaries w' = self_boundaries self" "\<forall>k\<le>nat (self_nt self - 1). bcs_hold w' k" by auto
  have "\<forall>k<nat (self_nt self). bcs_hold w' k"
  proof (intro allI impI)
    fix k assume "k < nat (self_nt self)"
    then have "k \<le> nat (self_nt self - 1)" by simp
    then show "bcs_hold w' k" using w(6) by simp
  qed
  then show ?thesis using w assms(2) by (simp add: solve_def py_range_0)
qed

lemma solve_short_axis: "self_nt self \<le> 1 \<Longrightarrow> 0 \<le> self_nx self \<Longrightarrow> solve self u = Inr self"
  by (simp add: solve_def py_range_0)

lemma solve_negative_grid: "self_nx self < 0 \<Longrightarrow> solve self u = Inl ValueError"
  by (simp add: solve_def)

lemma solve_narrow_grid:
  assumes "shape_ok self" and "self_nx self < 3" and "2 \<le> self_nt self" and "0 \<le> self_nx self"
  shows "solve self u = Inl IndexError"
proof -
  have l: "[0..<nat (self_nt self - 1)] = 0 # [1..<nat (self_nt self - 1)]"
    using assms(3) by (simp add: upt_conv_Cons)
  have k: "0 < nat (self_nt self)" using assms(3) by simp
  note r = shape_ok_rows[OF assms(1) k]
  have "length (self_imag self ! 0) < 3" using r assms(2) by simp
  then have d: "deriv self u (self_imag self ! 0) 4 True = Inl IndexError" by (rule deriv4_short)
  have "solve_advance self u 0 = Inl IndexError"
    unfolding solve_advance_def using r getitem_int[of "self_imag self" 0] getitem_int[of "self_real self" 0]
    by (simp add: d)
  then show ?thesis using assms(4) by (simp add: solve_def py_range_0 l solve_body_def)
qed

section \<open>Construction\<close>

lemma setrow_first:
  "setrow a 0 vs =
     (if a = [] then Inl IndexError
      else if length vs = length (a ! 0) \<or> length vs = 1 then Inr (a[0 := init_row (length (a ! 0)) vs])
      else Inl ValueError)"
  using getitem_int[of a 0] setitem_int[of a 0]
  by (auto simp: setrow_def init_row_def)

lemma setbcs_empty_row:
  assumes "self_real self \<noteq> []" "self_real self ! 0 = []"
  shows "setbcs self 0 = Inl IndexError"
  using assms getitem_int[of "self_real self" 0]
  by (simp add: setbcs_def c_to_tup_def setitem2_def setitem_def py_index_def)

lemma seq_py_div: "b \<noteq> 0 \<Longrightarrow> seq (py_div a b) f = f (a / b)"
  by (simp add: py_div_def)

lemma init_outcome:
  fixes dx dt_arg :: real and xrange trange :: "real \<times> real"
  defines "nx \<equiv> py_round ((snd xrange - fst xrange) / dx)"
      and "nt \<equiv> py_round ((snd trange - fst trange) / dt_arg)"
  defines "x \<equiv> map (\<lambda>k. if nx = 1 then fst xrange
                         else fst xrange + of_nat k * ((snd xrange - fst xrange) / of_int (nx - 1)))
                  [0..<nat nx]"
  shows "init ur ui initial dx dt_arg xrange trange bnds =
     (if dx = 0 \<or> dt_arg = 0 then Inl ZeroDivisionError
      else if nx < 0 \<or> nt < 0 then Inl ValueError
      else if nt = 0 then Inl IndexError
      else if length (initial x) \<noteq> nat nx \<and> length (initial x) \<noteq> 1 then Inl ValueError
      else if nx = 0 then Inl IndexError
      else Inr (init_result ur ui initial dx dt_arg xrange trange bnds))"
proof -
  let ?E = "\<lambda>u. map (\<lambda>i. map (u i) [0..<nat nx]) [0..<nat nt]"
  consider "dx = 0" | "dx \<noteq> 0" "dt_arg = 0" | "dx \<noteq> 0" "dt_arg \<noteq> 0" "nx < 0 \<or> nt < 0"
    | "dx \<noteq> 0" "dt_arg \<noteq> 0" "0 \<le> nx" "nt = 0"
    | "dx \<noteq> 0" "dt_arg \<noteq> 0" "0 \<le> nx" "0 < nt" "length (initial x) \<noteq> nat nx \<and> length (initial x) \<noteq> 1"
    | "dx \<noteq> 0" "dt_arg \<noteq> 0" "nx = 0" "0 < nt" "length (initial x) = nat nx \<or> length (initial x) = 1"
    | "dx \<noteq> 0" "dt_arg \<noteq> 0" "0 < nx" "0 < nt" "length (initial x) = nat nx \<or> length (initial x) = 1"
    by linarith
  then show ?thesis
  proof cases
    case 1
    then show ?thesis by (simp add: init_def py_div_def)
  next
    case 2
    then show ?thesis by (simp add: init_def py_div_def)
  next
    case 3
    then have "2 * dx ^ 2 \<noteq> 0" by simp
    with 3 show ?thesis
      unfolding init_def
      apply (simp only: seq_py_div Let_def simp_thms if_True if_False)
      apply (fold nx_def nt_def)
      apply (auto simp: np_empty2_def)
      done
  next
    case 4
    then have "2 * dx ^ 2 \<noteq> 0" by simp
    with 4 show ?thesis
      unfolding init_def
      apply (simp only: seq_py_div Let_def simp_thms if_True if_False)
      apply (fold nx_def nt_def)
      apply (simp add: np_empty2_def np_linspace_def setrow_first)
      done
  next
    case 5
    then have e: "?E u ! 0 = map (u 0) [0..<nat nx]" "?E u \<noteq> []" for u by simp_all
    from 5 have "2 * dx ^ 2 \<noteq> 0" by simp
    with 5 show ?thesis
      unfolding init_def
      apply (simp only: seq_py_div Let_def simp_thms if_True if_False)
      apply (fold nx_def nt_def)
      apply (simp add: np_empty2_def np_linspace_def del: upt_0)
      apply (fold x_def)
      apply (simp add: setrow_first e del: upt_0)
      done
  next
    case 6
    then have x0: "x = []" by (simp add: x_def)
    from 6 have "2 * dx ^ 2 \<noteq> 0" by simp
    with 6 x0 show ?thesis
      unfolding init_def
      apply (simp only: seq_py_div Let_def simp_thms if_True if_False)
      apply (fold nx_def nt_def)
      apply (simp add: np_empty2_def np_linspace_def setrow_first setbcs_empty_row init_row_def del: upt_0)
      done
  next
    case 7
    let ?t = "map (\<lambda>k. if nt = 1 then fst xrange
                         else fst xrange + of_nat k * ((snd xrange - fst xrange) / of_int (nt - 1)))
                  [0..<nat nt]"
    let ?w0 = "\<lparr>self_dx2 = dx ^ 2, self_dt = dt_arg, self_mu = dt_arg / (2 * dx ^ 2),
          self_nx = nx, self_nt = nt,
          self_real = (?E ur)[0 := init_row (nat nx) (map Re (initial x))],
          self_imag = (?E ui)[0 := init_row (nat nx) (map Im (initial x))],
          self_shape = (nat nt, nat nx), self_x = x, self_t = ?t, self_boundaries = bnds\<rparr>"
    have l: "length (init_row (nat nx) (map Re (initial x))) = nat nx"
       "length (init_row (nat nx) (map Im (initial x))) = nat nx"
      by (simp_all add: init_row_def)
    have s: "shape_ok ?w0"
      using l by (auto simp: shape_ok_def list_all_iff dest!: subsetD[OF set_update_subset_insert])
    have k: "0 < nat (self_nt ?w0)" "1 \<le> nat (self_nx ?w0)" using 7 by simp_all
    have e: "?E u ! 0 = map (u 0) [0..<nat nx]" "?E u \<noteq> []" for u using 7 by simp_all
    have nz: "2 * dx ^ 2 \<noteq> 0" using 7 by simp
    have i: "init ur ui initial dx dt_arg xrange trange bnds = setbcs ?w0 0"
      using 7 nz unfolding init_def
      apply (simp only: seq_py_div Let_def simp_thms if_True if_False)
      apply (fold nx_def nt_def)
      apply (simp add: np_empty2_def np_linspace_def del: upt_0)
      apply (fold x_def)
      apply (simp add: setrow_first e del: upt_0)
      done
    have r: "init_result ur ui initial dx dt_arg xrange trange bnds =
       \<lparr>self_dx2 = dx ^ 2, self_dt = dt_arg, self_mu = dt_arg / (2 * dx ^ 2),
          self_nx = nx, self_nt = nt,
          self_real = (?E ur)[0 := (init_row (nat nx) (map Re (initial x)))
                     [0 := Re (fst bnds), nat nx - 1 := Re (snd bnds)]],
          self_imag = (?E ui)[0 := (init_row (nat nx) (map Im (initial x)))
                     [0 := Im (fst bnds), nat nx - 1 := Im (snd bnds)]],
          self_shape = (nat nt, nat nx), self_x = x, self_t = ?t, self_boundaries = bnds\<rparr>"
      unfolding init_result_def Let_def
      apply (fold nx_def nt_def)
      apply (fold x_def)
      apply (rule refl)
      done
    have "setbcs ?w0 (int 0) = Inr (init_result ur ui initial dx dt_arg xrange trange bnds)"
      unfolding setbcs_closed[OF s k] r using 7 by simp
    then show ?thesis using 7 i by simp
  qed
qed

lemma py_round_int [simp]: "py_round (of_int k) = k"
  by (simp add: py_round_def)

lemma py_round_numeral [simp]:
  "py_round (numeral n) = numeral n" "py_round 0 = 0" "py_round 1 = 1"
  using py_round_int[of "numeral n"] py_round_int[of 0] py_round_int[of 1] by simp_all

lemma py_round_examples:
  "py_round (1 / (1 / 4)) = 4" "py_round ((3 / 10) / (1 / 10)) = 3" "py_round (1 / 1) = 1"
  "py_round (0 / (1 / 10)) = 0" "py_round (1 / (2 / 100)) = 50"
  by (simp_all add: py_round_def)

lemma upt_4: "[0..<4] = [0, 1, 2, 3]" "[0..<3] = [0, 1, 2]"
  by (simp_all add: upt_rec)

lemma init_example:
  "init ex_fill2 ex_fill2 ex_initial (1 / 4) (1 / 10) (0, 1) (0, 3 / 10) (1, 0) = Inr ex_self"
  unfolding init_outcome
  by (simp add: py_round_examples init_result_def ex_initial_def ex_self_def Let_def init_row_def
      ex_fill2_def upt_4 one_complex.code zero_complex.code power2_eq_square del: upt_0 upt_Suc)

lemma init_point:
  "init ex_fill2 ex_fill2 ex_initial 1 1 (0, 1) (0, 1) (1, 0) = Inr ex_point"
  unfolding init_outcome
  by (simp add: py_round_examples init_result_def ex_initial_def ex_point_def Let_def init_row_def
      ex_fill2_def)

lemma init_empty_axis:
  "init ex_fill2 ex_fill2 ex_initial (1 / 4) (1 / 10) (0, 1) (0, 0) (1, 0) = Inl IndexError"
  unfolding init_outcome
  by (simp add: py_round_examples)

section \<open>The boundary values after solve\<close>

lemma init_result_fields [simp]:
  "self_nx (init_result ur ui initial dx dt_arg xrange trange bnds) =
     py_round ((snd xrange - fst xrange) / dx)"
  "self_nt (init_result ur ui initial dx dt_arg xrange trange bnds) =
     py_round ((snd trange - fst trange) / dt_arg)"
  "self_boundaries (init_result ur ui initial dx dt_arg xrange trange bnds) = bnds"
  "self_dx2 (init_result ur ui initial dx dt_arg xrange trange bnds) = dx ^ 2"
  "self_dt (init_result ur ui initial dx dt_arg xrange trange bnds) = dt_arg"
  by (simp_all add: init_result_def Let_def)

lemma init_Inr:
  assumes "init ur ui initial dx dt_arg xrange trange bnds = Inr w"
  shows "w = init_result ur ui initial dx dt_arg xrange trange bnds" and "dx \<noteq> 0" and "dt_arg \<noteq> 0"
    and "1 \<le> self_nx w" and "1 \<le> self_nt w"
proof -
  have a: "w = init_result ur ui initial dx dt_arg xrange trange bnds \<and> dx \<noteq> 0 \<and> dt_arg \<noteq> 0 \<and>
     1 \<le> py_round ((snd xrange - fst xrange) / dx) \<and> 1 \<le> py_round ((snd trange - fst trange) / dt_arg)"
    using assms unfolding init_outcome by (auto split: if_splits)
  then show "w = init_result ur ui initial dx dt_arg xrange trange bnds" "dx \<noteq> 0" "dt_arg \<noteq> 0"
    "1 \<le> self_nx w" "1 \<le> self_nt w" by simp_all
qed

lemma shape_ok_init_result: "shape_ok (init_result ur ui initial dx dt_arg xrange trange bnds)"
  by (auto simp: shape_ok_def init_result_def Let_def list_all_iff init_row_def
      dest!: subsetD[OF set_update_subset_insert])

lemma bcs_hold_init_result:
  assumes "2 \<le> self_nx (init_result ur ui initial dx dt_arg xrange trange bnds)"
    and "1 \<le> self_nt (init_result ur ui initial dx dt_arg xrange trange bnds)"
  shows "bcs_hold (init_result ur ui initial dx dt_arg xrange trange bnds) 0"
proof -
  let ?nx = "py_round ((snd xrange - fst xrange) / dx)"
  let ?nt = "py_round ((snd trange - fst trange) / dt_arg)"
  have n: "2 \<le> ?nx" "1 \<le> ?nt" using assms by simp_all
  have l: "length (init_row (nat ?nx) vs) = nat ?nx" for vs by (simp add: init_row_def)
  have p: "0 < nat ?nt" "nat ?nx - 1 < nat ?nx" "nat ?nx - 1 \<noteq> 0" "0 < nat ?nx" using n by simp_all
  show ?thesis
    using p l by (simp add: bcs_hold_def init_result_def Let_def del: One_nat_def)
qed

text \<open>
  C1, as amended: the claim fails on a grid of a single point, where index 0 and index
  \<open>-1\<close> are the same cell and the right boundary value is written last (theorem
  \<open>boundaries_single_point_counterexample\<close>). On a grid of at least two points, for an
  object that \<open>__init__\<close> returned: \<open>solve\<close> returns when the time axis has one row or
  the grid has at least three points, and whenever \<open>solve\<close> returns, every row \<open>i < nt\<close>
  of the field, the last one included, has the real and imaginary parts of
  \<open>boundaries[0]\<close> at index 0 and those of \<open>boundaries[1]\<close> at index \<open>nx-1\<close>. \<open>solve\<close>
  always differentiates in Dirichlet mode.
\<close>

theorem boundaries_hold_after_solve:
  assumes "init ur ui initial dx dt_arg xrange trange bnds = Inr w" and "2 \<le> self_nx w"
  shows "(self_nt w = 1 \<or> 3 \<le> self_nx w \<longrightarrow> (\<exists>w'. solve w u = Inr w')) \<and>
     (\<forall>w' i. solve w u = Inr w' \<and> i < nat (self_nt w) \<longrightarrow>
        self_real w' ! i ! 0 = Re (fst bnds) \<and> self_imag w' ! i ! 0 = Im (fst bnds) \<and>
        self_real w' ! i ! (nat (self_nx w) - 1) = Re (snd bnds) \<and>
        self_imag w' ! i ! (nat (self_nx w) - 1) = Im (snd bnds))"
proof -
  note i = init_Inr[OF assms(1)]
  have s: "shape_ok w" unfolding i(1) by (rule shape_ok_init_result)
  have b: "self_boundaries w = bnds" unfolding i(1) by simp
  have h0: "bcs_hold w 0" using assms(2) i(5) unfolding i(1) by (rule bcs_hold_init_result)
  have tot: "\<exists>w'. solve w u = Inr w'" if "self_nt w = 1 \<or> 3 \<le> self_nx w"
  proof (cases "3 \<le> self_nx w")
    case True
    then show ?thesis using solve_completes[OF s True i(5) h0, of u] by blast
  next
    case False
    then have "self_nt w \<le> 1" using that by simp
    then show ?thesis using i(4) by (simp add: solve_short_axis)
  qed
  have res: "bcs_hold w' k \<and> self_nx w' = self_nx w \<and> self_boundaries w' = self_boundaries w"
    if a: "solve w u = Inr w'" and k: "k < nat (self_nt w)" for w' k
  proof (cases "3 \<le> self_nx w")
    case True
    then show ?thesis using solve_completes[OF s True i(5) h0, of u] a k by auto
  next
    case False
    then have n: "self_nx w < 3" by simp
    have nn: "0 \<le> self_nx w" using i(4) by simp
    have "self_nt w \<le> 1"
    proof (rule ccontr)
      assume "\<not> self_nt w \<le> 1"
      then have "2 \<le> self_nt w" by simp
      then show False using solve_narrow_grid[OF s n _ nn, of u] a by simp
    qed
    then have "w' = w" "k = 0" using a k i(5) nn by (simp_all add: solve_short_axis)
    then show ?thesis using h0 by simp
  qed
  show ?thesis
  proof (intro conjI allI impI)
    show "\<exists>w'. solve w u = Inr w'" if "self_nt w = 1 \<or> 3 \<le> self_nx w" using tot that .
  next
    fix w' k assume a: "solve w u = Inr w' \<and> k < nat (self_nt w)"
    then have r: "bcs_hold w' k" "self_nx w' = self_nx w" "self_boundaries w' = bnds"
      using res[of w' k] b by simp_all
    show "self_real w' ! k ! 0 = Re (fst bnds)" "self_imag w' ! k ! 0 = Im (fst bnds)"
       "self_real w' ! k ! (nat (self_nx w) - 1) = Re (snd bnds)"
       "self_imag w' ! k ! (nat (self_nx w) - 1) = Im (snd bnds)"
      using r by (simp_all add: bcs_hold_def)
  qed
qed

lemma shape_ok_ex_self: "shape_ok ex_self"
  by (simp add: shape_ok_def ex_self_def)

text \<open>
  With \<open>boundaries = (1, 0)\<close> on four points and three rows, every row has 1 at index 0,
  the final row included.
\<close>

theorem boundaries_hold_after_solve_witness:
  "init ex_fill2 ex_fill2 ex_initial (1 / 4) (1 / 10) (0, 1) (0, 3 / 10) (1, 0) = Inr ex_self \<and>
   2 \<le> self_nx ex_self \<and>
   (\<exists>w'. solve ex_self ex_fill = Inr w' \<and>
      self_real w' ! 0 ! 0 = 1 \<and> self_real w' ! 1 ! 0 = 1 \<and> self_real w' ! 2 ! 0 = 1 \<and>
      self_real w' ! 2 ! 3 = 0)"
proof -
  have n: "2 \<le> self_nx ex_self" by (simp add: ex_self_def)
  note t = boundaries_hold_after_solve[OF init_example n, of ex_fill]
  have "self_nt ex_self = 1 \<or> 3 \<le> self_nx ex_self" by (simp add: ex_self_def)
  with t obtain w' where w: "solve ex_self ex_fill = Inr w'" by blast
  have "self_real w' ! 0 ! 0 = 1" "self_real w' ! 1 ! 0 = 1" "self_real w' ! 2 ! 0 = 1"
    "self_real w' ! 2 ! 3 = 0"
    using t w by (simp_all add: ex_self_def)
  then show ?thesis using init_example n w by blast
qed

text \<open>
  C1 as stated fails: with \<open>dx = 1\<close> on \<open>xrange = (0, 1)\<close> the grid has one point, \<open>solve\<close>
  completes without an iteration, and \<open>real[0][0]\<close> is the real part of
  \<open>boundaries[1]\<close>, not of \<open>boundaries[0]\<close>.
\<close>

theorem boundaries_single_point_counterexample:
  "init ex_fill2 ex_fill2 ex_initial 1 1 (0, 1) (0, 1) (1, 0) = Inr ex_point \<and>
   solve ex_point ex_fill = Inr ex_point \<and> 0 < self_nt ex_point \<and>
   self_real ex_point ! 0 ! 0 \<noteq> Re (fst (self_boundaries ex_point))"
  using init_point by (simp add: solve_short_axis ex_point_def)

text \<open>
  On a grid of a single point every row that \<open>solve\<close> leaves holds \<open>boundaries[1]\<close> in its
  one cell.
\<close>

lemma single_point_holds_right_boundary:
  assumes "init ur ui initial dx dt_arg xrange trange bnds = Inr w" and "self_nx w = 1"
    and "solve w u = Inr w'" and "i < nat (self_nt w)"
  shows "self_real w' ! i ! 0 = Re (snd bnds) \<and> self_imag w' ! i ! 0 = Im (snd bnds)"
proof -
  note j = init_Inr[OF assms(1)]
  have s: "shape_ok w" unfolding j(1) by (rule shape_ok_init_result)
  have "self_nt w \<le> 1"
  proof (rule ccontr)
    assume "\<not> self_nt w \<le> 1"
    then have "2 \<le> self_nt w" by simp
    then show False using solve_narrow_grid[OF s, of u] assms(2,3) by simp
  qed
  then have e: "w' = w" "i = 0" using assms(2,3,4) j(5) by (simp_all add: solve_short_axis)
  have n: "py_round ((snd xrange - fst xrange) / dx) = 1" "0 < nat (py_round ((snd trange - fst trange) / dt_arg))"
    using assms(2) j(5) unfolding j(1) by simp_all
  show ?thesis unfolding e j(1) using n
    by (simp add: init_result_def Let_def init_row_def)
qed

section \<open>Frame of an iteration\<close>

text \<open>
  C6: in Dirichlet mode every array that \<open>deriv\<close> returns is 0 at both ends, and lines
  82 to 95 of one iteration, before \<open>_setbcs\<close> runs, give row \<open>i+1\<close> the end entries of
  row \<open>i\<close>, in \<open>real\<close> and in \<open>imag\<close>. The step returns whenever the grid has at least
  three points and row \<open>i+1\<close> exists.
\<close>

theorem advance_keeps_endpoints:
  assumes "shape_ok self" and "Suc i < nat (self_nt self)" and "3 \<le> nat (self_nx self)"
    and "self_dx2 self \<noteq> 0"
  shows "(\<forall>psi d. deriv self u psi 4 True = Inr d \<longrightarrow> d ! 0 = 0 \<and> d ! (length psi - 1) = 0) \<and>
     (\<exists>w1. solve_advance self u (int i) = Inr w1 \<and>
        self_real w1 ! Suc i ! 0 = self_real self ! i ! 0 \<and>
        self_real w1 ! Suc i ! (nat (self_nx self) - 1) = self_real self ! i ! (nat (self_nx self) - 1) \<and>
        self_imag w1 ! Suc i ! 0 = self_imag self ! i ! 0 \<and>
        self_imag w1 ! Suc i ! (nat (self_nx self) - 1) = self_imag self ! i ! (nat (self_nx self) - 1))"
proof (intro conjI allI impI)
  fix psi d assume "deriv self u psi 4 True = Inr d"
  then have l: "3 \<le> length psi" and d: "d = deriv4 self psi" using deriv4_Inr by blast+
  from l have "0 < length psi" by linarith
  then show "d ! 0 = 0" "d ! (length psi - 1) = 0" unfolding d by (rule deriv4_ends)+
next
  obtain w1 where a: "solve_advance self u (int i) = Inr w1"
    using solve_advance_closed[OF assms(1-3), of u] by simp
  note p = solve_advance_shape[OF assms(1-3) a]
  have i': "i < nat (self_nt self)" using assms(2) by simp
  note r = shape_ok_rows[OF assms(1) i'] and r' = shape_ok_rows[OF assms(1) assms(2)]
  have n0: "0 < nat (self_nx self)" using assms(3) by simp
  note e1 = rk4_row_ends[OF r(1) r(2) n0, of self "- 0.5"]
    and e2 = rk4_row_ends[OF r(2) r(1) n0, of self "0.5"]
  show "\<exists>w1. solve_advance self u (int i) = Inr w1 \<and>
        self_real w1 ! Suc i ! 0 = self_real self ! i ! 0 \<and>
        self_real w1 ! Suc i ! (nat (self_nx self) - 1) = self_real self ! i ! (nat (self_nx self) - 1) \<and>
        self_imag w1 ! Suc i ! 0 = self_imag self ! i ! 0 \<and>
        self_imag w1 ! Suc i ! (nat (self_nx self) - 1) = self_imag self ! i ! (nat (self_nx self) - 1)"
    using a r' e1 e2 by (intro exI[of _ w1]) (simp add: p(5,6))
qed

theorem advance_keeps_endpoints_witness:
  "shape_ok ex_self \<and> Suc 0 < nat (self_nt ex_self) \<and> 3 \<le> nat (self_nx ex_self) \<and>
   self_dx2 ex_self \<noteq> 0 \<and>
   (\<exists>w1. solve_advance ex_self ex_fill (int 0) = Inr w1 \<and>
      self_real w1 ! 1 ! 0 = 1 \<and> self_real w1 ! 1 ! 3 = 0 \<and>
      self_imag w1 ! 1 ! 0 = 0 \<and> self_imag w1 ! 1 ! 3 = 0)"
proof -
  have h: "Suc 0 < nat (self_nt ex_self)" "3 \<le> nat (self_nx ex_self)" "self_dx2 ex_self \<noteq> 0"
    by (simp_all add: ex_self_def)
  from advance_keeps_endpoints[OF shape_ok_ex_self h, of ex_fill]
  obtain w1 where "solve_advance ex_self ex_fill (int 0) = Inr w1"
      "self_real w1 ! Suc 0 ! 0 = self_real ex_self ! 0 ! 0"
      "self_real w1 ! Suc 0 ! (nat (self_nx ex_self) - 1) = self_real ex_self ! 0 ! (nat (self_nx ex_self) - 1)"
      "self_imag w1 ! Suc 0 ! 0 = self_imag ex_self ! 0 ! 0"
      "self_imag w1 ! Suc 0 ! (nat (self_nx ex_self) - 1) = self_imag ex_self ! 0 ! (nat (self_nx ex_self) - 1)"
    by blast
  then have "solve_advance ex_self ex_fill (int 0) = Inr w1 \<and>
      self_real w1 ! 1 ! 0 = 1 \<and> self_real w1 ! 1 ! 3 = 0 \<and>
      self_imag w1 ! 1 ! 0 = 0 \<and> self_imag w1 ! 1 ! 3 = 0"
    by (simp add: ex_self_def)
  then show ?thesis using shape_ok_ex_self h by blast
qed

text \<open>
  The iteration on the state \<open>ex_frame\<close>, for the example of C4.
\<close>

lemma shape_ok_ex_frame: "shape_ok ex_frame"
  by (simp add: shape_ok_def ex_frame_def)

lemma deriv4_four:
  "deriv4 self [a, b, c, d] =
     [0, (a - 2 * b + c) / self_dx2 self, (b - 2 * c + d) / self_dx2 self, 0]"
  by (simp add: deriv4_def stencil4_def upt_rec[of 0] upt_rec[of 1] upt_rec[of 2] upt_rec[of 3]
      numeral_2_eq_2 numeral_3_eq_3)

lemma rk4_row_ex_frame:
  "rk4_row ex_frame (- 0.5) [2, 1, 3, 5] [4, 1, 0, 6] = [2, 117 / 128, - (11 / 4), 5]"
  "rk4_row ex_frame 0.5 [4, 1, 0, 6] [2, 1, 3, 5] = [4, 125 / 64, 29 / 128, 6]"
  by (simp_all add: rk4_row_def Let_def deriv4_four np_add_def np_smul_def np_sdiv_def ex_frame_def)

text \<open>
  C4: one iteration of the loop of \<open>solve\<close> first runs lines 82 to 95, which assign the
  Runge-Kutta update of row \<open>i\<close> to row \<open>i+1\<close> and leave every other row, row \<open>i\<close> included,
  as it is, and then \<open>_setbcs(i)\<close>, which leaves row \<open>i+1\<close> as the update wrote it and
  overwrites the two end cells of row \<open>i\<close>. After the iteration row \<open>i+1\<close> holds the update,
  row \<open>i\<close> differs from before at its two ends only, and no other row has changed.
\<close>

theorem solve_body_frame:
  assumes "shape_ok self" and "Suc i < nat (self_nt self)" and "3 \<le> nat (self_nx self)"
  shows "\<exists>w1 w'. solve_advance self u (int i) = Inr w1 \<and> setbcs w1 (int i) = Inr w' \<and>
     solve_body self u (int i) = Inr w' \<and>
     self_real w1 ! Suc i = rk4_row self (- 0.5) (self_real self ! i) (self_imag self ! i) \<and>
     self_imag w1 ! Suc i = rk4_row self 0.5 (self_imag self ! i) (self_real self ! i) \<and>
     (\<forall>r. r \<noteq> Suc i \<longrightarrow>
        self_real w1 ! r = self_real self ! r \<and> self_imag w1 ! r = self_imag self ! r) \<and>
     self_real w' ! Suc i = rk4_row self (- 0.5) (self_real self ! i) (self_imag self ! i) \<and>
     self_imag w' ! Suc i = rk4_row self 0.5 (self_imag self ! i) (self_real self ! i) \<and>
     self_real w' ! Suc i = self_real w1 ! Suc i \<and> self_imag w' ! Suc i = self_imag w1 ! Suc i \<and>
     self_real w1 ! i = self_real self ! i \<and> self_imag w1 ! i = self_imag self ! i \<and>
     self_real w' ! i = (self_real self ! i)
        [0 := Re (fst (self_boundaries self)), nat (self_nx self) - 1 := Re (snd (self_boundaries self))] \<and>
     self_imag w' ! i = (self_imag self ! i)
        [0 := Im (fst (self_boundaries self)), nat (self_nx self) - 1 := Im (snd (self_boundaries self))] \<and>
     (\<forall>j. 0 < j \<and> j < nat (self_nx self) - 1 \<longrightarrow>
        self_real w' ! i ! j = self_real self ! i ! j \<and> self_imag w' ! i ! j = self_imag self ! i ! j) \<and>
     (\<forall>r. r \<noteq> i \<and> r \<noteq> Suc i \<longrightarrow>
        self_real w' ! r = self_real self ! r \<and> self_imag w' ! r = self_imag self ! r) \<and>
     length (self_real w') = length (self_real self) \<and> length (self_imag w') = length (self_imag self)"
proof -
  obtain w1 where a: "solve_advance self u (int i) = Inr w1"
    using solve_advance_closed[OF assms, of u] by simp
  note p = solve_advance_shape[OF assms a]
  obtain w' where b: "solve_body self u (int i) = Inr w'"
    and re: "self_real w' = (self_real self)
       [Suc i := rk4_row self (- 0.5) (self_real self ! i) (self_imag self ! i),
        i := (self_real self ! i)[0 := Re (fst (self_boundaries self)),
                                  nat (self_nx self) - 1 := Re (snd (self_boundaries self))]]"
    and im: "self_imag w' = (self_imag self)
       [Suc i := rk4_row self 0.5 (self_imag self ! i) (self_real self ! i),
        i := (self_imag self ! i)[0 := Im (fst (self_boundaries self)),
                                  nat (self_nx self) - 1 := Im (snd (self_boundaries self))]]"
    using solve_body_closed[OF assms, of u] by blast
  have c: "setbcs w1 (int i) = Inr w'" using a b by (simp add: solve_body_def)
  have i': "i < nat (self_nt self)" using assms(2) by simp
  note r = shape_ok_rows[OF assms(1) i'] and r' = shape_ok_rows[OF assms(1) assms(2)]
  show ?thesis
    using a b c r r' by (intro exI[of _ w1] exI[of _ w']) (simp add: re im p(5,6))
qed

text \<open>
  On \<open>ex_frame\<close> the update writes row 1, ends included, from row 0, and the boundary values
  \<open>(1+2j, 3+4j)\<close> go to the ends of row 0, not of row 1.
\<close>

theorem solve_body_frame_witness:
  "shape_ok ex_frame \<and> Suc 0 < nat (self_nt ex_frame) \<and> 3 \<le> nat (self_nx ex_frame) \<and>
   (\<exists>w1 w'. solve_advance ex_frame ex_fill (int 0) = Inr w1 \<and>
      solve_body ex_frame ex_fill (int 0) = Inr w' \<and>
      self_real w1 ! 0 = [2, 1, 3, 5] \<and> self_imag w1 ! 0 = [4, 1, 0, 6] \<and>
      self_real w1 ! 1 = [2, 117 / 128, - (11 / 4), 5] \<and>
      self_imag w1 ! 1 = [4, 125 / 64, 29 / 128, 6] \<and>
      self_real w' ! 0 = [1, 1, 3, 3] \<and> self_imag w' ! 0 = [2, 1, 0, 4] \<and>
      self_real w' ! 1 = [2, 117 / 128, - (11 / 4), 5] \<and>
      self_imag w' ! 1 = [4, 125 / 64, 29 / 128, 6] \<and>
      self_real w' ! 2 = [9, 9, 9, 9] \<and> self_imag w' ! 2 = [8, 8, 8, 8])"
proof -
  have h: "Suc 0 < nat (self_nt ex_frame)" "3 \<le> nat (self_nx ex_frame)"
    by (simp_all add: ex_frame_def)
  have rows: "self_real ex_frame ! 0 = [2, 1, 3, 5]" "self_imag ex_frame ! 0 = [4, 1, 0, 6]"
    "self_real ex_frame ! 2 = [9, 9, 9, 9]" "self_imag ex_frame ! 2 = [8, 8, 8, 8]"
    "self_boundaries ex_frame = (Complex 1 2, Complex 3 4)" "nat (self_nx ex_frame) - 1 = 3"
    by (simp_all add: ex_frame_def)
  from solve_body_frame[OF shape_ok_ex_frame h, of ex_fill]
  obtain w1 w' where a: "solve_advance ex_frame ex_fill (int 0) = Inr w1"
    and b: "solve_body ex_frame ex_fill (int 0) = Inr w'"
    and n1: "self_real w1 ! Suc 0 = rk4_row ex_frame (- 0.5) (self_real ex_frame ! 0) (self_imag ex_frame ! 0)"
       "self_imag w1 ! Suc 0 = rk4_row ex_frame 0.5 (self_imag ex_frame ! 0) (self_real ex_frame ! 0)"
    and n2: "self_real w' ! Suc 0 = rk4_row ex_frame (- 0.5) (self_real ex_frame ! 0) (self_imag ex_frame ! 0)"
       "self_imag w' ! Suc 0 = rk4_row ex_frame 0.5 (self_imag ex_frame ! 0) (self_real ex_frame ! 0)"
    and o1: "self_real w1 ! 0 = self_real ex_frame ! 0" "self_imag w1 ! 0 = self_imag ex_frame ! 0"
    and e: "self_real w' ! 0 = (self_real ex_frame ! 0)
        [0 := Re (fst (self_boundaries ex_frame)), nat (self_nx ex_frame) - 1 := Re (snd (self_boundaries ex_frame))]"
       "self_imag w' ! 0 = (self_imag ex_frame ! 0)
        [0 := Im (fst (self_boundaries ex_frame)), nat (self_nx ex_frame) - 1 := Im (snd (self_boundaries ex_frame))]"
    and f: "\<forall>r. r \<noteq> 0 \<and> r \<noteq> Suc 0 \<longrightarrow>
        self_real w' ! r = self_real ex_frame ! r \<and> self_imag w' ! r = self_imag ex_frame ! r"
    by blast
  from f have f2: "self_real w' ! 2 = self_real ex_frame ! 2" "self_imag w' ! 2 = self_imag ex_frame ! 2"
    by simp_all
  have "self_real w1 ! 0 = [2, 1, 3, 5]" "self_imag w1 ! 0 = [4, 1, 0, 6]"
    "self_real w1 ! 1 = [2, 117 / 128, - (11 / 4), 5]"
    "self_imag w1 ! 1 = [4, 125 / 64, 29 / 128, 6]"
    "self_real w' ! 0 = [1, 1, 3, 3]" "self_imag w' ! 0 = [2, 1, 0, 4]"
    "self_real w' ! 1 = [2, 117 / 128, - (11 / 4), 5]"
    "self_imag w' ! 1 = [4, 125 / 64, 29 / 128, 6]"
    "self_real w' ! 2 = [9, 9, 9, 9]" "self_imag w' ! 2 = [8, 8, 8, 8]"
    using n1 n2 o1 e f2 unfolding rows rk4_row_ex_frame by simp_all
  then show ?thesis using shape_ok_ex_frame h a b by blast
qed

section \<open>Outcomes of construction\<close>

lemma init_result_axes:
  "self_x (init_result ur ui initial dx dt_arg xrange trange bnds) =
     map (\<lambda>k. if py_round ((snd xrange - fst xrange) / dx) = 1 then fst xrange
               else fst xrange + of_nat k * ((snd xrange - fst xrange) /
                      of_int (py_round ((snd xrange - fst xrange) / dx) - 1)))
         [0..<nat (py_round ((snd xrange - fst xrange) / dx))]"
  "self_t (init_result ur ui initial dx dt_arg xrange trange bnds) =
     map (\<lambda>k. if py_round ((snd trange - fst trange) / dt_arg) = 1 then fst xrange
               else fst xrange + of_nat k * ((snd xrange - fst xrange) /
                      of_int (py_round ((snd trange - fst trange) / dt_arg) - 1)))
         [0..<nat (py_round ((snd trange - fst trange) / dt_arg))]"
  by (simp_all add: init_result_def Let_def)




section \<open>The coordinate sequences\<close>

text \<open>
  C3: \<open>nt\<close> is the rounded quotient and \<open>t\<close> has \<open>nt\<close> values, but line 39 passes
  \<open>xrange\<close> to \<open>linspace\<close>: with \<open>xrange = (0, 1)\<close> and \<open>trange = (0, 3/10)\<close> the sequence
  \<open>t\<close> runs from 0 to 1, not to 3/10.
\<close>

theorem time_axis_spans_xrange:
  "init ex_fill2 ex_fill2 ex_initial (1 / 4) (1 / 10) (0, 1) (0, 3 / 10) (1, 0) = Inr ex_self \<and>
   self_nt ex_self = 3 \<and> self_t ex_self = [0, 1 / 2, 1] \<and> last (self_t ex_self) \<noteq> 3 / 10"
  using init_example by (simp add: ex_self_def)

text \<open>
  C10: for an object that \<open>__init__\<close> returned with \<open>nx \<ge> 2\<close>, the sequence \<open>x\<close> has \<open>nx\<close>
  values \<open>x[k] = xrange[0] + k * (xrange[1] - xrange[0]) / (nx - 1)\<close>, its spacing is
  \<open>(xrange[1] - xrange[0]) / (nx - 1)\<close>, and the divisor of \<open>deriv\<close> is \<open>dx\<^sup>2\<close>, the square
  of the configured step.
\<close>

theorem grid_spacing:
  assumes "init ur ui initial dx dt_arg xrange trange bnds = Inr w" and "2 \<le> self_nx w"
  shows "length (self_x w) = nat (self_nx w) \<and>
     (\<forall>k<nat (self_nx w).
        self_x w ! k = fst xrange + of_nat k * (snd xrange - fst xrange) / of_int (self_nx w - 1)) \<and>
     self_x w ! 1 - self_x w ! 0 = (snd xrange - fst xrange) / of_int (self_nx w - 1) \<and>
     self_dx2 w = dx ^ 2 \<and>
     (\<forall>psi. 3 \<le> length psi \<longrightarrow>
        deriv w u psi 4 True = Inr (map (\<lambda>j. stencil4 psi j / dx ^ 2) [0..<length psi]))"
proof -
  note i = init_Inr[OF assms(1)]
  let ?nx = "py_round ((snd xrange - fst xrange) / dx)"
  have n: "self_nx w = ?nx" "2 \<le> ?nx" using assms(2) unfolding i(1) by simp_all
  have x: "self_x w = map (\<lambda>k. fst xrange + of_nat k * ((snd xrange - fst xrange) / of_int (?nx - 1)))
         [0..<nat ?nx]"
    unfolding i(1) init_result_axes using n(2) by simp
  have d: "self_dx2 w = dx ^ 2" unfolding i(1) by simp
  have p: "0 < nat ?nx" "1 < nat ?nx" using n(2) by simp_all
  have a: "self_x w ! 1 - self_x w ! 0 = (snd xrange - fst xrange) / of_int (?nx - 1)"
    unfolding x using p by simp
  show ?thesis
    unfolding n(1) using x d a by (simp add: deriv4_dirichlet)
qed

text \<open>
  With \<open>xrange = (0, 1)\<close> and \<open>dx = 0.02\<close>: \<open>nx = 50\<close> and the spacing is 1/49, not 0.02.
\<close>

theorem grid_spacing_witness:
  "\<exists>w. init ex_fill2 ex_fill2 ex_initial (2 / 100) (1 / 10) (0, 1) (0, 3 / 10) (0, 0) = Inr w \<and>
       self_nx w = 50 \<and> self_x w ! 1 - self_x w ! 0 = 1 / 49 \<and> (1 / 49 :: real) \<noteq> 2 / 100 \<and>
       self_dx2 w = (2 / 100) ^ 2"
proof -
  let ?w = "init_result ex_fill2 ex_fill2 ex_initial (2 / 100) (1 / 10) (0, 1) (0, 3 / 10) (0, 0)"
  have i: "init ex_fill2 ex_fill2 ex_initial (2 / 100) (1 / 10) (0, 1) (0, 3 / 10) (0, 0) = Inr ?w"
    unfolding init_outcome by (simp add: py_round_examples ex_initial_def)
  have n: "self_nx ?w = 50" by (simp add: py_round_examples)
  then have n2: "2 \<le> self_nx ?w" by simp
  from grid_spacing[OF i n2, of ex_fill]
  have "self_x ?w ! 1 - self_x ?w ! 0 = (snd (0 :: real, 1 :: real) - fst (0 :: real, 1 :: real)) / of_int (self_nx ?w - 1)"
    and "self_dx2 ?w = (2 / 100) ^ 2" by blast+
  then have "self_x ?w ! 1 - self_x ?w ! 0 = 1 / 49" "self_dx2 ?w = (2 / 100) ^ 2"
    unfolding n by simp_all
  then show ?thesis using i n by (intro exI[of _ ?w]) simp
qed

section \<open>The probability density\<close>

text \<open>
  C8: for a row \<open>i\<close> of the field, \<open>prob(i)\<close> returns \<open>nx\<close> values, the value at \<open>j\<close> being
  \<open>real[i][j]\<^sup>2 + imag[i][j]\<^sup>2\<close> and not negative, and leaves the object as it was.
\<close>

theorem prob_values:
  assumes "shape_ok self" and "i < nat (self_nt self)"
  shows "\<exists>ps. prob self (int i) = Inr (self, ps) \<and> length ps = nat (self_nx self) \<and>
     (\<forall>j<nat (self_nx self).
        ps ! j = (self_real self ! i ! j) ^ 2 + (self_imag self ! i ! j) ^ 2 \<and> 0 \<le> ps ! j)"
proof -
  note r = shape_ok_rows[OF assms]
  let ?ps = "np_add (np_square (self_real self ! i)) (np_square (self_imag self ! i))"
  have p: "prob self (int i) = Inr (self, ?ps)"
    using r by (simp add: prob_def getitem_int)
  have l: "length ?ps = nat (self_nx self)" using r by simp
  have v: "?ps ! j = (self_real self ! i ! j) ^ 2 + (self_imag self ! i ! j) ^ 2 \<and> 0 \<le> ?ps ! j"
    if "j < nat (self_nx self)" for j
    using that r by (simp add: nth_np)
  show ?thesis using p l v by blast
qed

theorem prob_values_witness:
  "shape_ok ex_self \<and> 0 < nat (self_nt ex_self) \<and>
   prob ex_self (int 0) = Inr (ex_self, [1, 5 / 9, 20 / 9, 0])"
proof -
  have h: "0 < nat (self_nt ex_self)" by (simp add: ex_self_def)
  from prob_values[OF shape_ok_ex_self h]
  obtain ps where p: "prob ex_self (int 0) = Inr (ex_self, ps)"
    and l: "length ps = nat (self_nx ex_self)"
    and v: "\<forall>j<nat (self_nx ex_self).
        ps ! j = (self_real ex_self ! 0 ! j) ^ 2 + (self_imag ex_self ! 0 ! j) ^ 2 \<and> 0 \<le> ps ! j"
    by blast
  have "ps = [1, 5 / 9, 20 / 9, 0]"
  proof (rule nth_equalityI)
    show "length ps = length [1, 5 / 9, 20 / 9, 0 :: real]" using l by (simp add: ex_self_def)
  next
    fix j assume "j < length ps"
    then have j: "j < 4" using l by (simp add: ex_self_def)
    then consider "j = 0" | "j = 1" | "j = 2" | "j = 3" by linarith
    then show "ps ! j = [1, 5 / 9, 20 / 9, 0] ! j"
      using v[rule_format, of j] j
      by cases (simp_all add: ex_self_def power2_eq_square)
  qed
  then show ?thesis using shape_ok_ex_self h p by simp
qed

section \<open>The Runge-Kutta step against the recurrence of the specification\<close>

lemma half_step_form: "np_sdiv (np_smul c k) 2 = np_smul (c / 2) k"
  by (simp add: np_sdiv_def np_smul_def)

lemma weighted_sum_form:
  "np_smul c (np_add (np_add (np_add (np_smul (1 / 6) k0) (np_smul (1 / 3) k1)) (np_smul (1 / 3) k2))
                     (np_smul (1 / 6) k3)) =
   np_sdiv (np_smul c (np_add (np_add (np_add k0 (np_smul 2 k1)) (np_smul 2 k2)) k3)) 6"
proof (rule nth_equalityI)
  show "length (np_smul c (np_add (np_add (np_add (np_smul (1 / 6) k0) (np_smul (1 / 3) k1))
            (np_smul (1 / 3) k2)) (np_smul (1 / 6) k3))) =
        length (np_sdiv (np_smul c (np_add (np_add (np_add k0 (np_smul 2 k1)) (np_smul 2 k2)) k3)) 6)"
    by simp
next
  fix j
  assume "j < length (np_smul c (np_add (np_add (np_add (np_smul (1 / 6) k0) (np_smul (1 / 3) k1))
            (np_smul (1 / 3) k2)) (np_smul (1 / 6) k3)))"
  then have j: "j < length k0" "j < length k1" "j < length k2" "j < length k3" by simp_all
  then show "np_smul c (np_add (np_add (np_add (np_smul (1 / 6) k0) (np_smul (1 / 3) k1))
            (np_smul (1 / 3) k2)) (np_smul (1 / 6) k3)) ! j =
        np_sdiv (np_smul c (np_add (np_add (np_add k0 (np_smul 2 k1)) (np_smul 2 k2)) k3)) 6 ! j"
    by (simp add: nth_np algebra_simps)
qed

text \<open>
  C2: lines 82 to 95 compute what the recurrence of the specification computes: the
  half-step increment \<open>dt * k / 2\<close> of the source is \<open>dt/2 * k\<close>, and its weighted sum
  \<open>dt * ((1/6) k0 + (1/3) k1 + (1/3) k2 + (1/6) k3)\<close> is \<open>dt * (k0 + 2 k1 + 2 k2 + k3) / 6\<close>
  (over the reals). Both return on a grid of at least three points when row \<open>i+1\<close> exists.
\<close>

theorem advance_is_rk4_recurrence:
  "solve_advance self u i = spec_advance self u i \<and>
   (shape_ok self \<and> Suc k < nat (self_nt self) \<and> 3 \<le> nat (self_nx self) \<longrightarrow>
      (\<exists>w'. spec_advance self u (int k) = Inr w'))"
proof -
  have e: "solve_advance self u j = spec_advance self u j" for j
    unfolding solve_advance_def spec_advance_def half_step_form weighted_sum_form ..
  have "\<exists>w'. spec_advance self u (int k) = Inr w'"
    if "shape_ok self \<and> Suc k < nat (self_nt self) \<and> 3 \<le> nat (self_nx self)"
    using that solve_advance_closed[of self k u] unfolding e by simp
  then show ?thesis using e by blast
qed

theorem advance_is_rk4_recurrence_witness:
  "shape_ok ex_self \<and> Suc 0 < nat (self_nt ex_self) \<and> 3 \<le> nat (self_nx ex_self) \<and>
   (\<exists>w'. spec_advance ex_self ex_fill (int 0) = Inr w' \<and>
         solve_advance ex_self ex_fill (int 0) = Inr w')"
proof -
  have h: "shape_ok ex_self \<and> Suc 0 < nat (self_nt ex_self) \<and> 3 \<le> nat (self_nx ex_self)"
    using shape_ok_ex_self by (simp add: ex_self_def)
  note t = advance_is_rk4_recurrence[of ex_self ex_fill "int 0" 0]
  from t h obtain w' where "spec_advance ex_self ex_fill (int 0) = Inr w'" by blast
  then show ?thesis using t h by auto
qed

section \<open>The derivative operator on a store of arrays\<close>

lemma seq_assoc: "seq (seq m f) g = seq m (\<lambda>x. seq (f x) g)"
  by (cases m) simp_all

lemma map_sum_seq: "map_sum id g (seq m f) = seq m (\<lambda>x. map_sum id g (f x))"
  by (cases m) simp_all

lemma h_setitem_fresh:
  "h_setitem (h @ [b]) (length h) i v = seq (setitem b i v) (\<lambda>xs. Inr (h @ [xs]))"
  by (simp add: h_setitem_def)

lemma h_setslice_fresh:
  "h_setslice (h @ [b]) (length h) lo hi vs = seq (setslice b lo hi vs) (\<lambda>xs. Inr (h @ [xs]))"
  by (simp add: h_setslice_def)

lemma nth_old: "p < length h \<Longrightarrow> (h @ [b]) ! p = h ! p"
  by (simp add: nth_append)

lemma deriv_heap_refines:
  assumes "psi < length h"
  shows "map_sum id (\<lambda>(h', r). (take (length h) h', h' ! r, r)) (deriv_heap self u h psi order dirichlet) =
     seq (deriv self u (h ! psi) order dirichlet) (\<lambda>df. Inr (h, df, Suc (length h)))"
  using assms unfolding deriv_heap_def deriv_def Let_def
  by (simp add: seq_assoc map_sum_seq h_setitem_fresh h_setslice_fresh nth_old nth_append
      cong: if_cong)

text \<open>
  C9: on the store, a call of \<open>deriv\<close> that returns leaves the array \<open>psi\<close> and every other
  array that existed before the call as it was, for every \<open>order\<close> and both values of
  \<open>dirichlet\<close>; the array it returns is in a cell allocated during the call and holds the
  value of \<open>deriv\<close> on the content of \<open>psi\<close>. It raises exactly when \<open>deriv\<close> on the content
  raises.
\<close>

theorem deriv_leaves_input:
  assumes "psi < length h"
  shows "(\<forall>h' r. deriv_heap self u h psi order dirichlet = Inr (h', r) \<longrightarrow>
            h' ! psi = h ! psi \<and> take (length h) h' = h \<and> length h \<le> r \<and>
            deriv self u (h ! psi) order dirichlet = Inr (h' ! r)) \<and>
         (\<forall>e. deriv_heap self u h psi order dirichlet = Inl e \<longleftrightarrow>
              deriv self u (h ! psi) order dirichlet = Inl e)"
proof (intro conjI allI impI)
  fix h' r assume a: "deriv_heap self u h psi order dirichlet = Inr (h', r)"
  note l = deriv_heap_refines[OF assms, of self u order dirichlet, unfolded a]
  then obtain df where d: "deriv self u (h ! psi) order dirichlet = Inr df"
    by (cases "deriv self u (h ! psi) order dirichlet") simp_all
  from l d have t: "take (length h) h' = h" and v: "h' ! r = df" and r: "r = Suc (length h)"
    by auto
  have "h' ! psi = take (length h) h' ! psi" using assms by simp
  then show "h' ! psi = h ! psi" using t by simp
  show "take (length h) h' = h" by (rule t)
  show "length h \<le> r" using r by simp
  show "deriv self u (h ! psi) order dirichlet = Inr (h' ! r)" using d v by simp
next
  fix e
  note l = deriv_heap_refines[OF assms, of self u order dirichlet]
  show "deriv_heap self u h psi order dirichlet = Inl e \<longleftrightarrow>
        deriv self u (h ! psi) order dirichlet = Inl e"
    using l
    by (cases "deriv_heap self u h psi order dirichlet"; cases "deriv self u (h ! psi) order dirichlet")
      auto
qed

theorem deriv_leaves_input_witness:
  "0 < length ex_heap \<and>
   (\<exists>h' r. deriv_heap ex_self ex_fill ex_heap 0 4 True = Inr (h', r) \<and>
      h' ! 0 = [1, 4, 9, 16, 25] \<and> take 2 h' = ex_heap \<and> h' ! r = [0, 32, 32, 32, 0])"
proof -
  have p: "0 < length ex_heap" by (simp add: ex_heap_def)
  note t = deriv_leaves_input[OF p, of ex_self ex_fill 4 True]
  have d: "deriv ex_self ex_fill (ex_heap ! 0) 4 True = Inr [0, 32, 32, 32, 0]"
    by (simp add: deriv4_dirichlet ex_heap_def ex_self_def stencil4_def upt_rec[of 0] upt_rec[of 1]
        upt_rec[of 2] upt_rec[of 3] upt_rec[of 4] upt_rec[of 5])
  obtain h' r where a: "deriv_heap ex_self ex_fill ex_heap 0 4 True = Inr (h', r)"
  proof (cases "deriv_heap ex_self ex_fill ex_heap 0 4 True")
    case (Inl e)
    then have "deriv ex_self ex_fill (ex_heap ! 0) 4 True = Inl e" using t by blast
    then show ?thesis using d by simp
  next
    case (Inr x)
    then show ?thesis using that by (cases x) simp
  qed
  with t have "h' ! 0 = ex_heap ! 0" "take (length ex_heap) h' = ex_heap"
    "deriv ex_self ex_fill (ex_heap ! 0) 4 True = Inr (h' ! r)" by blast+
  then have "h' ! 0 = [1, 4, 9, 16, 25]" "take 2 h' = ex_heap" "h' ! r = [0, 32, 32, 32, 0]"
    using d by (simp_all add: ex_heap_def numeral_2_eq_2)
  then show ?thesis using p a by blast
qed

end
